theory Spec2Isabelle
  imports Complex_Main
begin

section \<open>Python values\<close>

subsection \<open>Floats\<close>

text \<open>
  A Python \<^verbatim>\<open>float\<close> is an IEEE 754 double. A finite double is \<open>Fin m e\<close>, the number
  \<open>m \<sdot> 2\<^sup>e\<close> with \<open>m\<close> odd (zero is \<open>Fin 0 0\<close>; the sign of zero is not kept, no
  operation below depends on it). \<open>round_ratio a b\<close> is the double nearest to the
  fraction \<open>a / b\<close> (\<open>b > 0\<close>), ties to even, with gradual underflow below
  \<open>2\<^sup>-\<^sup>1\<^sup>0\<^sup>2\<^sup>2\<close> and overflow to infinity: the rounding of every correctly rounded
  operation, which is what \<^verbatim>\<open>float(str)\<close>, \<^verbatim>\<open>float(int)\<close>, \<^verbatim>\<open>*\<close> and \<^verbatim>\<open>/\<close> are.
\<close>

datatype pyfloat = Fin int int | PosInf | NegInf | NaN

function strip_twos :: "int \<Rightarrow> int \<Rightarrow> pyfloat" where
  "strip_twos m e = (if m = 0 then Fin 0 0
                    else if even m then strip_twos (m div 2) (e + 1)
                    else Fin m e)"
  by pat_completeness auto
termination
  by (relation "measure (\<lambda>(m, e). nat \<bar>m\<bar>)") auto

declare strip_twos.simps [simp del]

function bit_length :: "int \<Rightarrow> int" where
  "bit_length n = (if n \<le> 0 then 0 else 1 + bit_length (n div 2))"
  by pat_completeness auto
termination
  by (relation "measure nat") auto

declare bit_length.simps [simp del]

text \<open>\<open>floor_log2 n b\<close> is \<open>\<lfloor>log\<^sub>2 (n / b)\<rfloor>\<close> for positive \<open>n\<close> and \<open>b\<close>.\<close>

definition floor_log2 :: "int \<Rightarrow> int \<Rightarrow> int" where
  "floor_log2 n b = (let e0 = bit_length n - bit_length b
     in if (if 0 \<le> e0 then 2 ^ nat e0 * b \<le> n else b \<le> n * 2 ^ nat (- e0))
        then e0 else e0 - 1)"

definition round_div :: "int \<Rightarrow> int \<Rightarrow> int" where
  "round_div num den = (let f = num div den; r = num mod den
     in if 2 * r < den then f else if den < 2 * r then f + 1
        else if even f then f else f + 1)"

definition pack :: "bool \<Rightarrow> int \<Rightarrow> int \<Rightarrow> pyfloat" where
  "pack neg m s =
     (if 0 \<le> s \<and> 2 ^ 1024 \<le> m * 2 ^ nat s then (if neg then NegInf else PosInf)
      else strip_twos (if neg then - m else m) s)"

definition round_scaled :: "bool \<Rightarrow> int \<Rightarrow> int \<Rightarrow> int \<Rightarrow> pyfloat" where
  "round_scaled neg n b s =
     pack neg (if s < 0 then round_div (n * 2 ^ nat (- s)) b
               else round_div n (b * 2 ^ nat s)) s"

definition round_ratio :: "int \<Rightarrow> int \<Rightarrow> pyfloat" where
  "round_ratio a b = (if a = 0 then Fin 0 0
     else round_scaled (a < 0) \<bar>a\<bar> b (max (floor_log2 \<bar>a\<bar> b) (- 1022) - 52))"

definition float_of_int :: "int \<Rightarrow> pyfloat" where
  "float_of_int n = round_ratio n 1"

text \<open>\<^verbatim>\<open>x * k\<close> and \<^verbatim>\<open>x / k\<close> for a float \<open>x\<close> and a positive integer constant \<open>k\<close>
  that is itself a double (1000 and 100 in the source).\<close>

fun float_mul :: "pyfloat \<Rightarrow> int \<Rightarrow> pyfloat" where
  "float_mul (Fin m e) k =
     (if 0 \<le> e then round_ratio (m * k * 2 ^ nat e) 1 else round_ratio (m * k) (2 ^ nat (- e)))"
| "float_mul x k = x"

fun float_div :: "pyfloat \<Rightarrow> int \<Rightarrow> pyfloat" where
  "float_div (Fin m e) k =
     (if 0 \<le> e then round_ratio (m * 2 ^ nat e) k else round_ratio m (k * 2 ^ nat (- e)))"
| "float_div x k = x"

text \<open>Truth value of a float (\<^verbatim>\<open>if timezone:\<close>): everything but zero, NaN included.\<close>

fun float_truthy :: "pyfloat \<Rightarrow> bool" where
  "float_truthy (Fin m e) = (m \<noteq> 0)"
| "float_truthy x = True"

subsection \<open>Values\<close>

text \<open>
  The values a format hands to the parser: a regex group is a \<^verbatim>\<open>str\<close> (or \<^verbatim>\<open>None\<close>
  when the group took no part in the match), a field of a JSON log line is whatever
  \<^verbatim>\<open>json.loads\<close> produced. A \<^verbatim>\<open>dict\<close> is an association list with distinct keys.
  A character of a string is one of the first 256 code points, and the string
  operations below are those of Python's \<^verbatim>\<open>str\<close> on them.
\<close>

datatype pyval =
    PNone
  | PBool bool
  | PInt int
  | PFloat pyfloat
  | PStr string
  | PList "pyval list"
  | PDict "(string \<times> pyval) list"

subsection \<open>Exceptions\<close>

text \<open>
  The text of a message is kept as a term, not as the formatted string:
  \<open>MsgHTTP code msg\<close> is \<^verbatim>\<open>'HTTP Error %s %s' % (e.code, e.msg)\<close>,
  \<open>MsgWithBody m body\<close> is \<^verbatim>\<open>m + ", response: " + str(e.read())\<close>,
  \<open>MsgUnexpected r\<close> is \<^verbatim>\<open>"didn't receive the expected response. Response was %s " % r\<close>,
  \<open>MsgBytes r\<close> is the raw response and \<open>MsgValue v\<close> a value taken from the decoded
  response.
\<close>

datatype message =
    MsgStr string
  | MsgHTTP int string
  | MsgWithBody message string
  | MsgUnexpected string
  | MsgBytes string
  | MsgValue pyval

text \<open>
  \<open>HTTPError code msg body\<close> is \<^verbatim>\<open>urllib.error.HTTPError\<close> (a subclass of
  \<^verbatim>\<open>URLError\<close>); \<open>body\<close> is what \<^verbatim>\<open>e.read()\<close> gives, \<open>None\<close> when the error has no
  \<^verbatim>\<open>read\<close>. \<open>HTTPException\<close>, \<open>ValueError\<close> and \<open>SocketTimeout\<close> carry \<^verbatim>\<open>str(e)\<close>
  (for a \<open>ValueError\<close> raised by a conversion below, the text without the operand).
\<close>

datatype exn =
    URLError message
  | HTTPError int string "string option"
  | HTTPException string
  | ValueError string
  | SocketTimeout string
  | MatomoError message "int option"
  | BaseFormatException
  | KeyError string
  | TypeError
  | IndexError
  | AttributeError
  | OverflowError
  | OtherException string

subsection \<open>Strings\<close>

definition startswith :: "string \<Rightarrow> string \<Rightarrow> bool" where
  "startswith s p = (take (length p) s = p)"

text \<open>\<^verbatim>\<open>s[1:-1]\<close>: the string without its first and its last character.\<close>

definition slice_1_m1 :: "string \<Rightarrow> string" where
  "slice_1_m1 s = butlast (tl s)"

definition strip_chars :: "char list \<Rightarrow> string \<Rightarrow> string" where
  "strip_chars cs s =
     rev (dropWhile (\<lambda>c. c \<in> set cs) (rev (dropWhile (\<lambda>c. c \<in> set cs) s)))"

text \<open>\<^verbatim>\<open>str.lower()\<close>: the capital letters are \<^verbatim>\<open>A\<close> to \<^verbatim>\<open>Z\<close> and U+00C0 to U+00DE without
  the multiplication sign U+00D7; the small letter is 32 code points further.\<close>

definition upper_chars :: "char list" where
  "upper_chars = ''ABCDEFGHIJKLMNOPQRSTUVWXYZ'' @
     [CHR 0xC0, CHR 0xC1, CHR 0xC2, CHR 0xC3, CHR 0xC4, CHR 0xC5, CHR 0xC6, CHR 0xC7,
      CHR 0xC8, CHR 0xC9, CHR 0xCA, CHR 0xCB, CHR 0xCC, CHR 0xCD, CHR 0xCE, CHR 0xCF,
      CHR 0xD0, CHR 0xD1, CHR 0xD2, CHR 0xD3, CHR 0xD4, CHR 0xD5, CHR 0xD6,
      CHR 0xD8, CHR 0xD9, CHR 0xDA, CHR 0xDB, CHR 0xDC, CHR 0xDD, CHR 0xDE]"

definition lower_char :: "char \<Rightarrow> char" where
  "lower_char c = (if c \<in> set upper_chars
                   then char_of (of_char c + (32 :: nat)) else c)"

definition lower :: "string \<Rightarrow> string" where
  "lower s = map lower_char s"

text \<open>\<^verbatim>\<open>s.split(c)\<close> for a one-character separator: never the empty list.\<close>

fun split_on :: "char \<Rightarrow> string \<Rightarrow> string list" where
  "split_on c [] = [[]]"
| "split_on c (x # xs) =
     (if x = c then [] # split_on c xs
      else (case split_on c xs of [] \<Rightarrow> [[x]] | w # ws \<Rightarrow> (x # w) # ws))"

text \<open>\<^verbatim>\<open>s[s.rfind("/") + 1:]\<close>: what follows the last slash, all of \<open>s\<close> without one.\<close>

definition after_last_slash :: "string \<Rightarrow> string" where
  "after_last_slash s = rev (takeWhile (\<lambda>c. c \<noteq> CHR ''/'') (rev s))"

subsection \<open>\<^verbatim>\<open>float()\<close> and \<^verbatim>\<open>int()\<close>\<close>

text \<open>
  What \<^verbatim>\<open>float(s)\<close> and \<^verbatim>\<open>int(s)\<close> strip from both ends of a \<^verbatim>\<open>str\<close>: tab, line feed,
  vertical tab, form feed, carriage return and space, and the two spaces above U+007F,
  which the conversion first turns into a space. The separators U+001C to U+001F are
  not stripped, although \<^verbatim>\<open>str.strip()\<close> removes them.
\<close>

definition whitespace :: "char list" where
  "whitespace = [CHR 0x09, CHR 0x0A, CHR 0x0B, CHR 0x0C, CHR 0x0D, CHR 0x20,
                 CHR 0x85, CHR 0xA0]"

definition is_digit :: "char \<Rightarrow> bool" where
  "is_digit c = (c \<in> set ''0123456789'')"

definition digit_val :: "char \<Rightarrow> int" where
  "digit_val c = int (length (takeWhile (\<lambda>d. d \<noteq> c) ''0123456789''))"

definition digits_value :: "string \<Rightarrow> int" where
  "digits_value ds = foldl (\<lambda>a c. 10 * a + digit_val c) 0 ds"

text \<open>
  \<^verbatim>\<open>digitpart ::= digit (["_"] digit)*\<close>. \<open>digitpart_tail\<close> reads what follows a digit
  and returns the digits read and the rest of the input.
\<close>

fun digitpart_tail :: "string \<Rightarrow> string \<times> string" where
  "digitpart_tail [] = ([], [])"
| "digitpart_tail [c] = (if is_digit c then ([c], []) else ([], [c]))"
| "digitpart_tail (c # d # cs) =
     (if is_digit c then (case digitpart_tail (d # cs) of (ds, r) \<Rightarrow> (c # ds, r))
      else if c = CHR ''_'' \<and> is_digit d then digitpart_tail (d # cs)
      else ([], c # d # cs))"

definition digitpart :: "string \<Rightarrow> (string \<times> string) option" where
  "digitpart s = (case s of
       [] \<Rightarrow> None
     | c # cs \<Rightarrow> if is_digit c
                then (case digitpart_tail cs of (ds, r) \<Rightarrow> Some (c # ds, r))
                else None)"

text \<open>An optional sign: whether it is a minus, and the rest.\<close>

definition split_sign :: "string \<Rightarrow> bool \<times> string" where
  "split_sign s = (case s of
       [] \<Rightarrow> (False, [])
     | c # cs \<Rightarrow> if c = CHR ''-'' then (True, cs)
                else if c = CHR ''+'' then (False, cs) else (False, s))"

text \<open>\<^verbatim>\<open>number ::= [digitpart] "." digitpart | digitpart ["."]\<close>: the digits before and
  after the point, and the rest.\<close>

definition parse_number :: "string \<Rightarrow> (string \<times> string \<times> string) option" where
  "parse_number s = (case digitpart s of
       Some (ip, r) \<Rightarrow>
         (case r of
            [] \<Rightarrow> Some (ip, [], [])
          | c # r' \<Rightarrow>
              if c = CHR ''.''
              then (case digitpart r' of
                      Some (fp, r'') \<Rightarrow> Some (ip, fp, r'')
                    | None \<Rightarrow> Some (ip, [], r'))
              else Some (ip, [], r))
     | None \<Rightarrow>
         (case s of
            [] \<Rightarrow> None
          | c # r' \<Rightarrow>
              if c = CHR ''.''
              then (case digitpart r' of
                      Some (fp, r'') \<Rightarrow> Some ([], fp, r'')
                    | None \<Rightarrow> None)
              else None))"

text \<open>\<^verbatim>\<open>exponent ::= ("e" | "E") [sign] digitpart\<close>, up to the end of the input; no
  exponent is exponent 0.\<close>

definition parse_exponent :: "string \<Rightarrow> int option" where
  "parse_exponent s = (case s of
       [] \<Rightarrow> Some 0
     | c # cs \<Rightarrow>
         if c = CHR ''e'' \<or> c = CHR ''E''
         then (case split_sign cs of
                 (neg, r) \<Rightarrow>
                   (case digitpart r of
                      Some (ds, []) \<Rightarrow> Some (if neg then - digits_value ds else digits_value ds)
                    | _ \<Rightarrow> None))
         else None)"

definition scale10 :: "int \<Rightarrow> int \<Rightarrow> pyfloat" where
  "scale10 n k = (if 0 \<le> k then round_ratio (n * 10 ^ nat k) 1
                  else round_ratio n (10 ^ nat (- k)))"

definition float_of_string :: "string \<Rightarrow> exn + pyfloat" where
  "float_of_string s0 =
     (case split_sign (strip_chars whitespace s0) of
        (neg, s) \<Rightarrow>
          if lower s = ''inf'' \<or> lower s = ''infinity'' then Inr (if neg then NegInf else PosInf)
          else if lower s = ''nan'' then Inr NaN
          else (case parse_number s of
                  None \<Rightarrow> Inl (ValueError ''could not convert string to float'')
                | Some (ip, fp, r) \<Rightarrow>
                    (case parse_exponent r of
                       None \<Rightarrow> Inl (ValueError ''could not convert string to float'')
                     | Some k \<Rightarrow>
                         Inr (scale10 ((if neg then - 1 else 1) * digits_value (ip @ fp))
                                      (k - int (length fp))))))"

definition int_of_string :: "string \<Rightarrow> exn + int" where
  "int_of_string s0 =
     (case split_sign (strip_chars whitespace s0) of
        (neg, s) \<Rightarrow>
          (case digitpart s of
             Some (ds, []) \<Rightarrow> Inr (if neg then - digits_value ds else digits_value ds)
           | _ \<Rightarrow> Inl (ValueError ''invalid literal for int() with base 10'')))"

fun py_float :: "pyval \<Rightarrow> exn + pyfloat" where
  "py_float (PStr s) = float_of_string s"
| "py_float (PInt n) =
     (case float_of_int n of
        PosInf \<Rightarrow> Inl OverflowError
      | NegInf \<Rightarrow> Inl OverflowError
      | f \<Rightarrow> Inr f)"
| "py_float (PFloat f) = Inr f"
| "py_float (PBool b) = Inr (if b then Fin 1 0 else Fin 0 0)"
| "py_float v = Inl TypeError"

text \<open>\<^verbatim>\<open>int(x)\<close> of a float truncates towards zero.\<close>

fun int_of_float :: "pyfloat \<Rightarrow> exn + int" where
  "int_of_float (Fin m e) =
     Inr (if 0 \<le> e then m * 2 ^ nat e
          else if 0 \<le> m then m div 2 ^ nat (- e) else - ((- m) div 2 ^ nat (- e)))"
| "int_of_float NaN = Inl (ValueError ''cannot convert float NaN to integer'')"
| "int_of_float x = Inl OverflowError"

fun py_int :: "pyval \<Rightarrow> exn + int" where
  "py_int (PStr s) = int_of_string s"
| "py_int (PInt n) = Inr n"
| "py_int (PFloat f) = int_of_float f"
| "py_int (PBool b) = Inr (if b then 1 else 0)"
| "py_int v = Inl TypeError"

section \<open>Formats: \<^verbatim>\<open>format.get\<close>\<close>

text \<open>
  After \<^verbatim>\<open>format.match(line)\<close> succeeded, a format object holds what the line gave:
  \<^verbatim>\<open>self.matched\<close>, the \<^verbatim>\<open>groupdict()\<close> of the regex match, for \<^verbatim>\<open>RegexFormat\<close> and its
  subclasses (\<^verbatim>\<open>W3cExtendedFormat\<close> and \<^verbatim>\<open>IisFormat\<close> inherit \<^verbatim>\<open>RegexFormat.get\<close>;
  \<^verbatim>\<open>ShoutcastFormat\<close> and \<^verbatim>\<open>AmazonCloudFrontFormat\<close> override it), and \<^verbatim>\<open>self.json\<close>,
  the decoded line, for \<^verbatim>\<open>JsonFormat\<close>. The regex engine, \<^verbatim>\<open>json.loads\<close> and
  \<^verbatim>\<open>urllib.parse.unquote\<close> are library code: the theory takes their results as given.
\<close>

datatype format =
    RegexFormat "(string \<times> pyval) list"
  | ShoutcastFormat "(string \<times> pyval) list"
  | AmazonCloudFrontFormat "(string \<times> pyval) list"
  | JsonFormat pyval

fun dict_set :: "(string \<times> 'v) list \<Rightarrow> string \<Rightarrow> 'v \<Rightarrow> (string \<times> 'v) list" where
  "dict_set [] k v = [(k, v)]"
| "dict_set ((k', v') # d) k v = (if k' = k then (k, v) # d else (k', v') # dict_set d k v)"

text \<open>\<^verbatim>\<open>obj[key]\<close> and \<^verbatim>\<open>obj[key] = v\<close> for a string key.\<close>

fun getitem :: "pyval \<Rightarrow> string \<Rightarrow> exn + pyval" where
  "getitem (PDict d) key = (case map_of d key of None \<Rightarrow> Inl (KeyError key) | Some v \<Rightarrow> Inr v)"
| "getitem v key = Inl TypeError"

fun setitem :: "pyval \<Rightarrow> string \<Rightarrow> pyval \<Rightarrow> exn + pyval" where
  "setitem (PDict d) key v = Inr (PDict (dict_set d key v))"
| "setitem x key v = Inl TypeError"

definition regex_get :: "(string \<times> pyval) list \<Rightarrow> string \<Rightarrow> exn + pyval" where
  "regex_get matched key =
     (case map_of matched key of None \<Rightarrow> Inl BaseFormatException | Some v \<Rightarrow> Inr v)"

definition unquoted :: "(string \<Rightarrow> string) \<Rightarrow> exn + pyval \<Rightarrow> exn + pyval" where
  "unquoted unquote r = (case r of
       Inl e \<Rightarrow> Inl e
     | Inr (PStr s) \<Rightarrow> Inr (PStr (unquote s))
     | Inr v \<Rightarrow> Inl TypeError)"

text \<open>
  The two patches at the head of \<^verbatim>\<open>JsonFormat.get\<close>, which index \<^verbatim>\<open>self.json\<close> outside
  the \<^verbatim>\<open>try\<close> that turns a \<^verbatim>\<open>KeyError\<close> into a \<^verbatim>\<open>BaseFormatException\<close>. The result is
  the new \<^verbatim>\<open>self.json\<close>. (A \<^verbatim>\<open>dict\<close> subscripted by a slice raises \<^verbatim>\<open>TypeError\<close>.)
\<close>

definition json_patch :: "pyval \<Rightarrow> string \<Rightarrow> exn + pyval" where
  "json_patch doc key =
     (if key = ''generation_time_milli'' then
        (case getitem doc key of
           Inl e \<Rightarrow> Inl e
         | Inr v \<Rightarrow>
             (case py_float v of
                Inl e \<Rightarrow> Inl e
              | Inr x \<Rightarrow>
                  (case int_of_float (float_mul x 1000) of
                     Inl e \<Rightarrow> Inl e
                   | Inr n \<Rightarrow> setitem doc key (PInt n))))
      else if key = ''date'' then
        (case getitem doc key of
           Inl e \<Rightarrow> Inl e
         | Inr (PStr s) \<Rightarrow>
             (case setitem doc ''timezone'' (PStr (filter (\<lambda>c. c \<noteq> CHR '':'') (drop 19 s))) of
                Inl e \<Rightarrow> Inl e
              | Inr doc' \<Rightarrow> setitem doc' key (PStr (take 19 s)))
         | Inr (PList l) \<Rightarrow> Inl AttributeError
         | Inr v \<Rightarrow> Inl TypeError)
      else Inr doc)"

text \<open>\<^verbatim>\<open>format.get(key)\<close>: the value or the exception, and the format object afterwards.\<close>

fun get :: "(string \<Rightarrow> string) \<Rightarrow> format \<Rightarrow> string \<Rightarrow> (exn + pyval) \<times> format" where
  "get unquote (RegexFormat m) key = (regex_get m key, RegexFormat m)"
| "get unquote (ShoutcastFormat m) key =
     (if key = ''user_agent'' then unquoted unquote (regex_get m key) else regex_get m key,
      ShoutcastFormat m)"
| "get unquote (AmazonCloudFrontFormat m) key =
     (if key = ''event_category'' \<and> map_of m ''event_category'' = None
        then Inr (PStr ''cloudfront_rtmp'')
      else if key = ''status'' \<and> map_of m ''status'' = None
        then Inr (PStr ''200'')
      else if key = ''user_agent'' then unquoted unquote (regex_get m key)
      else regex_get m key,
      AmazonCloudFrontFormat m)"
| "get unquote (JsonFormat doc) key =
     (case json_patch doc key of
        Inl e \<Rightarrow> (Inl e, JsonFormat doc)
      | Inr doc' \<Rightarrow>
          (case getitem doc' key of
             Inl (KeyError k) \<Rightarrow> Inl BaseFormatException
           | r \<Rightarrow> r,
           JsonFormat doc'))"

section \<open>The hit normalizer (\<^verbatim>\<open>Parser.parse\<close>, one line)\<close>

text \<open>
  A \<^verbatim>\<open>Hit\<close> with the attributes \<^verbatim>\<open>Parser.parse\<close> gives it. \<^verbatim>\<open>hit.args\<close> only ever gets
  the keys \<^verbatim>\<open>'uid'\<close> and \<^verbatim>\<open>'cvar'\<close>; the custom variables \<^verbatim>\<open>{1: [k, v], 2: ...}\<close> are the
  list of the pairs in index order (empty: no \<^verbatim>\<open>'cvar'\<close> key). \<open>host\<close> and \<open>date\<close> are
  \<open>None\<close> while the attribute is not set. The type \<open>'t\<close> is \<^verbatim>\<open>datetime\<close>.
\<close>

record hit_args =
  uid :: "pyval option"
  cvar :: "(string \<times> string) list"

record 't Hit =
  filename :: string
  lineno :: int
  status :: pyval
  full_path :: pyval
  is_meta :: bool
  is_download :: bool
  is_robot :: bool
  is_error :: bool
  is_redirect :: bool
  args :: hit_args
  query_string :: string
  path :: pyval
  referrer :: string
  user_agent :: string
  ip :: pyval
  length' :: int
  generation_time_milli :: pyval
  host :: "string option"
  userid :: pyval
  event_category :: pyval
  event_action :: pyval
  event_name :: pyval
  date :: "'t option"

text \<open>
  A compiled pattern of the configuration, applied with \<^verbatim>\<open>regEx.match(path)\<close>: no match,
  or what \<^verbatim>\<open>oai.group(1)\<close> then does.
\<close>

datatype group1 = NoSuchGroup | Unmatched | Group string

text \<open>
  What the parser is configured with and the library code it calls:
  \<open>match_line\<close> is \<^verbatim>\<open>format.match(line)\<close> (the format object after a successful match),
  \<open>parseTime\<close> is \<^verbatim>\<open>format.parseTime\<close>, \<open>minus_hours d h\<close> is
  \<^verbatim>\<open>d - datetime.timedelta(hours=h)\<close>, \<open>user_agents\<close> are the robot patterns applied with
  \<^verbatim>\<open>robot.search\<close>. The configuration is taken to hold every option the parser reads.
\<close>

record 't env =
  ip_anonymization :: bool
  oaipmh_preamble :: string
  tracking_metadata :: "(string \<Rightarrow> group1 option) list"
  tracking_download :: "(string \<Rightarrow> group1 option) list"
  user_agents :: "(string \<Rightarrow> bool) list"
  unquote :: "string \<Rightarrow> string"
  skip :: int
  match_line :: "string \<Rightarrow> format option"
  parseTime :: "pyval \<Rightarrow> exn + 't"
  minus_hours :: "'t \<Rightarrow> pyfloat \<Rightarrow> exn + 't"

record stats =
  count_lines_parsed :: nat
  count_lines_recorded :: nat
  count_lines_static :: nat
  count_lines_skipped_user_agent :: nat
  count_lines_downloads :: nat

definition and_then ::
  "(exn + 'a) \<times> format \<Rightarrow> ('a \<Rightarrow> format \<Rightarrow> (exn + 'b) \<times> format) \<Rightarrow> (exn + 'b) \<times> format" where
  "and_then r k = (case r of (Inl e, f) \<Rightarrow> (Inl e, f) | (Inr x, f) \<Rightarrow> k x f)"

text \<open>\<^verbatim>\<open>except (ValueError, BaseFormatException)\<close>.\<close>

definition recoverable :: "exn \<Rightarrow> bool" where
  "recoverable e = (case e of ValueError t \<Rightarrow> True | BaseFormatException \<Rightarrow> True | _ \<Rightarrow> False)"

text \<open>Lines 1232 to 1239: status and path, \<^verbatim>\<open>""\<close> on any exception.\<close>

definition field_or_empty :: "(string \<Rightarrow> string) \<Rightarrow> format \<Rightarrow> string \<Rightarrow> pyval \<times> format" where
  "field_or_empty uq f key =
     (case get uq f key of (Inl e, f') \<Rightarrow> (PStr [], f') | (Inr v, f') \<Rightarrow> (v, f'))"

text \<open>\<^verbatim>\<open>if v.startswith('"'): v = v[1:-1]\<close>; a value that is not a \<^verbatim>\<open>str\<close> has no
  \<^verbatim>\<open>startswith\<close>.\<close>

definition strip_quotes :: "pyval \<Rightarrow> exn + string" where
  "strip_quotes v = (case v of
       PStr s \<Rightarrow> Inr (if startswith s [CHR 0x22] then slice_1_m1 s else s)
     | _ \<Rightarrow> Inl AttributeError)"

text \<open>Lines 1258 to 1266.\<close>

definition referrer_field :: "(string \<Rightarrow> string) \<Rightarrow> format \<Rightarrow> (exn + string) \<times> format" where
  "referrer_field uq f =
     (case get uq f ''referrer'' of
        (Inr v, f') \<Rightarrow>
          (case strip_quotes v of
             Inl e \<Rightarrow> (Inl e, f')
           | Inr s \<Rightarrow> (Inr (if s = ''-'' then [] else s), f'))
      | (Inl BaseFormatException, f') \<Rightarrow> (Inr [], f')
      | (Inl e, f') \<Rightarrow> (Inl e, f'))"

text \<open>Lines 1268 to 1276.\<close>

definition user_agent_field :: "(string \<Rightarrow> string) \<Rightarrow> format \<Rightarrow> (exn + string) \<times> format" where
  "user_agent_field uq f =
     (case get uq f ''user_agent'' of
        (Inr v, f') \<Rightarrow> (strip_quotes v, f')
      | (Inl BaseFormatException, f') \<Rightarrow> (Inr [], f')
      | (Inl e, f') \<Rightarrow> (Inl e, f'))"

text \<open>Lines 1280 to 1283: \<^verbatim>\<open>ip0, ip1, *_ = hit.ip.split('.')\<close> needs two parts at least.\<close>

definition anonymize :: "bool \<Rightarrow> pyval \<Rightarrow> exn + pyval" where
  "anonymize enabled v =
     (if \<not> enabled then Inr v
      else (case v of
              PStr s \<Rightarrow>
                (case split_on (CHR ''.'') s of
                   ip0 # ip1 # rest \<Rightarrow> Inr (PStr (ip0 @ ''.'' @ ip1 @ ''.0.0''))
                 | _ \<Rightarrow> Inl (ValueError ''not enough values to unpack''))
            | _ \<Rightarrow> Inl AttributeError))"

definition ip_field :: "bool \<Rightarrow> (string \<Rightarrow> string) \<Rightarrow> format \<Rightarrow> (exn + pyval) \<times> format" where
  "ip_field enabled uq f =
     (case get uq f ''ip'' of
        (Inl e, f') \<Rightarrow> (Inl e, f')
      | (Inr v, f') \<Rightarrow> (anonymize enabled v, f'))"

text \<open>Lines 1285 to 1289.\<close>

definition length_field :: "(string \<Rightarrow> string) \<Rightarrow> format \<Rightarrow> (exn + int) \<times> format" where
  "length_field uq f =
     (case get uq f ''length'' of
        (Inr v, f') \<Rightarrow>
          (case py_int v of
             Inr n \<Rightarrow> (Inr n, f')
           | Inl e \<Rightarrow> if recoverable e then (Inr 0, f') else (Inl e, f'))
      | (Inl e, f') \<Rightarrow> if recoverable e then (Inr 0, f') else (Inl e, f'))"

text \<open>\<^verbatim>\<open>float(format.get(key))\<close>.\<close>

definition get_float :: "(string \<Rightarrow> string) \<Rightarrow> format \<Rightarrow> string \<Rightarrow> (exn + pyfloat) \<times> format" where
  "get_float uq f key =
     (case get uq f key of
        (Inl e, f') \<Rightarrow> (Inl e, f')
      | (Inr v, f') \<Rightarrow> (py_float v, f'))"

text \<open>Lines 1291 to 1300: the nested \<^verbatim>\<open>try\<close> blocks; the default is the \<^verbatim>\<open>int\<close> 0.\<close>

definition generation_time :: "(string \<Rightarrow> string) \<Rightarrow> format \<Rightarrow> (exn + pyval) \<times> format" where
  "generation_time uq f0 =
     (case get_float uq f0 ''generation_time_milli'' of
        (Inr x, f1) \<Rightarrow> (Inr (PFloat x), f1)
      | (Inl e1, f1) \<Rightarrow>
          if \<not> recoverable e1 then (Inl e1, f1)
          else (case get_float uq f1 ''generation_time_micro'' of
                  (Inr x, f2) \<Rightarrow> (Inr (PFloat (float_div x 1000)), f2)
                | (Inl e2, f2) \<Rightarrow>
                    if \<not> recoverable e2 then (Inl e2, f2)
                    else (case get_float uq f2 ''generation_time_secs'' of
                            (Inr x, f3) \<Rightarrow> (Inr (PFloat (float_mul x 1000)), f3)
                          | (Inl e3, f3) \<Rightarrow>
                              if \<not> recoverable e3 then (Inl e3, f3)
                              else (Inr (PInt 0), f3))))"

text \<open>Lines 1302 to 1308.\<close>

definition host_field :: "(string \<Rightarrow> string) \<Rightarrow> format \<Rightarrow> (exn + string option) \<times> format" where
  "host_field uq f =
     (case get uq f ''host'' of
        (Inr (PStr s), f') \<Rightarrow>
          (let h = strip_chars ''.'' (lower s)
           in (Inr (Some (if startswith h [CHR 0x22] then slice_1_m1 h else h)), f'))
      | (Inr v, f') \<Rightarrow> (Inl AttributeError, f')
      | (Inl BaseFormatException, f') \<Rightarrow> (Inr None, f')
      | (Inl e, f') \<Rightarrow> (Inl e, f'))"

text \<open>Lines 1311 to 1317: the value to store as \<^verbatim>\<open>hit.userid\<close> and \<^verbatim>\<open>hit.args['uid']\<close>, if
  any; the bare \<^verbatim>\<open>except\<close> swallows every exception.\<close>

definition userid_field :: "(string \<Rightarrow> string) \<Rightarrow> format \<Rightarrow> pyval option \<times> format" where
  "userid_field uq f =
     (case get uq f ''userid'' of
        (Inl e, f') \<Rightarrow> (None, f')
      | (Inr v, f') \<Rightarrow> (if v \<noteq> PStr ''-'' then Some v else None, f'))"

text \<open>Lines 1320 to 1330: category, action and name, each kept if its own lookup
  succeeded before the first exception.\<close>

definition event_fields ::
  "(string \<Rightarrow> string) \<Rightarrow> format \<Rightarrow> (pyval \<times> pyval \<times> pyval) \<times> format" where
  "event_fields uq f =
     (case get uq f ''event_category'' of
        (Inl e, f1) \<Rightarrow> ((PNone, PNone, PNone), f1)
      | (Inr ec, f1) \<Rightarrow>
          (case get uq f1 ''event_action'' of
             (Inl e, f2) \<Rightarrow> ((ec, PNone, PNone), f2)
           | (Inr ea, f2) \<Rightarrow>
               (case get uq f2 ''event_name'' of
                  (Inl e, f3) \<Rightarrow> ((ec, ea, PNone), f3)
                | (Inr en, f3) \<Rightarrow> ((ec, ea, if en = PStr ''-'' then PNone else en), f3))))"

text \<open>Lines 1232 to 1330 together: the hit as it enters the filter chain.\<close>

definition make_hit ::
  "'t env \<Rightarrow> string \<Rightarrow> int \<Rightarrow> format \<Rightarrow> (exn + 't Hit) \<times> format" where
  "make_hit env fname n f0 =
     (case field_or_empty (unquote env) f0 ''status'' of (st, f1) \<Rightarrow>
      case field_or_empty (unquote env) f1 ''path'' of (pa, f2) \<Rightarrow>
      and_then (referrer_field (unquote env) f2) (\<lambda>ref f3.
      and_then (user_agent_field (unquote env) f3) (\<lambda>ua f4.
      and_then (ip_field (ip_anonymization env) (unquote env) f4) (\<lambda>addr f5.
      and_then (length_field (unquote env) f5) (\<lambda>len f6.
      and_then (generation_time (unquote env) f6) (\<lambda>gt f7.
      and_then (host_field (unquote env) f7) (\<lambda>ho f8.
      case userid_field (unquote env) f8 of (u, f9) \<Rightarrow>
      case event_fields (unquote env) f9 of ((ec, ea, en), f10) \<Rightarrow>
        (Inr \<lparr>filename = fname, lineno = n, status = st, full_path = pa,
              is_meta = False, is_download = False, is_robot = False,
              is_error = False, is_redirect = False,
              args = \<lparr>uid = u, cvar = []\<rparr>,
              query_string = [], path = pa, referrer = ref, user_agent = ua,
              ip = addr, length' = len, generation_time_milli = gt, host = ho,
              userid = (case u of None \<Rightarrow> PNone | Some v \<Rightarrow> v),
              event_category = ec, event_action = ea, event_name = en,
              date = None\<rparr>, f10))))))))"

section \<open>The filter chain (\<^verbatim>\<open>check_*\<close>)\<close>

text \<open>
  \<^verbatim>\<open>self.check_methods\<close> are the bound methods whose name starts with \<^verbatim>\<open>check_\<close>, in the
  order of \<^verbatim>\<open>inspect.getmembers\<close>, which sorts by name: \<^verbatim>\<open>check_download\<close>,
  \<^verbatim>\<open>check_http_error\<close>, \<^verbatim>\<open>check_http_redirect\<close>, \<^verbatim>\<open>check_static\<close>,
  \<^verbatim>\<open>check_user_agent\<close> (\<^verbatim>\<open>check_format\<close> is a static method, which \<^verbatim>\<open>inspect.ismethod\<close>
  rejects). Each returns the accept flag and the hit as it left it, or raises.
\<close>

text \<open>\<^verbatim>\<open>Hit._add_custom_var(key, value, 'cvar')\<close>: the next index gets the pair.\<close>

definition add_page_custom_var :: "string \<Rightarrow> string \<Rightarrow> 't Hit \<Rightarrow> 't Hit" where
  "add_page_custom_var key v h = h\<lparr>args := (args h)\<lparr>cvar := cvar (args h) @ [(key, v)]\<rparr>\<rparr>"

text \<open>\<^verbatim>\<open>config.options["oaipmh_preamble"] + oai.group(1)[oai.group(1).rfind("/")+1:]\<close>.\<close>

definition finalOAIpmh :: "string \<Rightarrow> group1 \<Rightarrow> exn + string" where
  "finalOAIpmh preamble g = (case g of
       Group t \<Rightarrow> Inr (preamble @ after_last_slash t)
     | Unmatched \<Rightarrow> Inl AttributeError
     | NoSuchGroup \<Rightarrow> Inl IndexError)"

fun static_loop ::
  "string \<Rightarrow> (string \<Rightarrow> group1 option) list \<Rightarrow> string \<Rightarrow> 't Hit \<Rightarrow> exn + 't Hit" where
  "static_loop preamble [] p h = Inr h"
| "static_loop preamble (regEx # rest) p h =
     (case regEx p of
        None \<Rightarrow> static_loop preamble rest p h
      | Some g \<Rightarrow>
          (case finalOAIpmh preamble g of
             Inl e \<Rightarrow> Inl e
           | Inr final \<Rightarrow>
               if final \<noteq> preamble
               then static_loop preamble rest p
                      ((add_page_custom_var ''oaipmhID'' final h)\<lparr>is_meta := True\<rparr>)
               else static_loop preamble rest p h))"

fun download_loop ::
  "string \<Rightarrow> (string \<Rightarrow> group1 option) list \<Rightarrow> string \<Rightarrow> 't Hit \<Rightarrow> exn + 't Hit" where
  "download_loop preamble [] p h = Inr h"
| "download_loop preamble (regEx # rest) p h =
     (case regEx p of
        None \<Rightarrow> download_loop preamble rest p h
      | Some g \<Rightarrow>
          (case finalOAIpmh preamble g of
             Inl e \<Rightarrow> Inl e
           | Inr final \<Rightarrow>
               if final \<noteq> preamble
               then Inr ((add_page_custom_var ''oaipmhID'' final h)\<lparr>is_download := True\<rparr>)
               else download_loop preamble rest p h))"

text \<open>\<^verbatim>\<open>regEx.match(hit.path)\<close> raises \<^verbatim>\<open>TypeError\<close> on a path that is not a string, if
  there is a pattern to try at all.\<close>

definition check_static :: "'t env \<Rightarrow> 't Hit \<Rightarrow> exn + bool \<times> 't Hit" where
  "check_static env h =
     (if tracking_metadata env = [] then Inr (True, h)
      else (case path h of
              PStr p \<Rightarrow>
                (case static_loop (oaipmh_preamble env) (tracking_metadata env) p h of
                   Inl e \<Rightarrow> Inl e
                 | Inr h' \<Rightarrow> Inr (True, h'))
            | _ \<Rightarrow> Inl TypeError))"

definition check_download :: "'t env \<Rightarrow> 't Hit \<Rightarrow> exn + bool \<times> 't Hit" where
  "check_download env h =
     (if tracking_download env = [] then Inr (True, h)
      else (case path h of
              PStr p \<Rightarrow>
                (case download_loop (oaipmh_preamble env) (tracking_download env) p h of
                   Inl e \<Rightarrow> Inl e
                 | Inr h' \<Rightarrow> Inr (True, h'))
            | _ \<Rightarrow> Inl TypeError))"

text \<open>\<^verbatim>\<open>hit.status[0]\<close>. The keys of a decoded JSON object are strings, never \<^verbatim>\<open>0\<close>.\<close>

definition first_item :: "pyval \<Rightarrow> exn + pyval" where
  "first_item v = (case v of
       PStr t \<Rightarrow> (case t of [] \<Rightarrow> Inl IndexError | c # cs \<Rightarrow> Inr (PStr [c]))
     | PList l \<Rightarrow> (case l of [] \<Rightarrow> Inl IndexError | x # xs \<Rightarrow> Inr x)
     | PDict d \<Rightarrow> Inl (KeyError ''0'')
     | _ \<Rightarrow> Inl TypeError)"

definition check_http_error :: "'t Hit \<Rightarrow> exn + bool \<times> 't Hit" where
  "check_http_error h =
     (case first_item (status h) of
        Inl e \<Rightarrow> Inl e
      | Inr c \<Rightarrow>
          (case py_int c of
             Inl e \<Rightarrow> Inl e
           | Inr n \<Rightarrow> Inr (True, if 4 \<le> n \<and> n \<le> 5 then h\<lparr>is_error := True\<rparr> else h)))"

definition check_http_redirect :: "'t Hit \<Rightarrow> exn + bool \<times> 't Hit" where
  "check_http_redirect h =
     (case first_item (status h) of
        Inl e \<Rightarrow> Inl e
      | Inr c \<Rightarrow>
          Inr (True, if c = PStr ''3'' \<and> status h \<noteq> PStr ''304''
                     then h\<lparr>is_redirect := True\<rparr> else h))"

text \<open>\<^verbatim>\<open>check_user_agent\<close>: the first robot pattern found in the user agent counts the hit
  as skipped and marks it; the method cannot raise.\<close>

fun robot_loop :: "(string \<Rightarrow> bool) list \<Rightarrow> string \<Rightarrow> bool" where
  "robot_loop [] ua = False"
| "robot_loop (robot # rest) ua = (if robot ua then True else robot_loop rest ua)"

definition check_user_agent :: "'t env \<Rightarrow> 't Hit \<Rightarrow> stats \<Rightarrow> bool \<times> 't Hit \<times> stats" where
  "check_user_agent env h st =
     (if robot_loop (user_agents env) (user_agent h)
      then (True, h\<lparr>is_robot := True\<rparr>,
            st\<lparr>count_lines_skipped_user_agent := Suc (count_lines_skipped_user_agent st)\<rparr>)
      else (True, h, st))"

text \<open>\<^verbatim>\<open>all(method(hit) for method in self.check_methods)\<close>: the methods in order, up to
  the first that rejects.\<close>

definition and_check ::
  "(exn + bool \<times> 'h) \<Rightarrow> ('h \<Rightarrow> exn + bool \<times> 'h) \<Rightarrow> exn + bool \<times> 'h" where
  "and_check r c = (case r of
       Inl e \<Rightarrow> Inl e
     | Inr (ok, h) \<Rightarrow> if ok then c h else Inr (False, h))"

definition run_checks :: "'t env \<Rightarrow> 't Hit \<Rightarrow> stats \<Rightarrow> (exn + bool \<times> 't Hit) \<times> stats" where
  "run_checks env h st =
     (case and_check (and_check (and_check (check_download env h)
                        check_http_error) check_http_redirect) (check_static env) of
        Inl e \<Rightarrow> (Inl e, st)
      | Inr (ok, h') \<Rightarrow>
          if ok then (case check_user_agent env h' st of (ok', h'', st') \<Rightarrow> (Inr (ok', h''), st'))
          else (Inr (False, h'), st))"

section \<open>One line of \<^verbatim>\<open>Parser.parse\<close>\<close>

text \<open>
  The queue of \<^verbatim>\<open>Recorder\<close> carries hits and the sentinel \<^verbatim>\<open>None\<close>. What one pass of the
  loop body of \<^verbatim>\<open>Parser.parse\<close> does with a line: it is skipped, does not match, is
  rejected by a check, has an invalid date or time zone, is handled to the end (with the
  hit as it then is), or an exception leaves \<^verbatim>\<open>parse\<close>.
\<close>

datatype 't outcome =
    Skipped
  | NotMatched
  | Excluded
  | InvalidLine
  | Filtered
  | Handled "'t Hit"
  | Raised exn

record 't world =
  queue :: "'t Hit option list"
  counters :: stats

text \<open>\<^verbatim>\<open>Parser.is_filtered\<close> computes a host and returns \<^verbatim>\<open>(False, None)\<close>.\<close>

definition is_filtered :: "'t Hit \<Rightarrow> bool" where
  "is_filtered h = False"

text \<open>Lines 1363 to 1368.\<close>

definition deliver :: "'t Hit \<Rightarrow> 't world \<Rightarrow> 't world" where
  "deliver h w =
     (let q1 = (if \<not> is_robot h \<and> (is_meta h \<or> is_download h) \<and> \<not> is_redirect h
                then queue w @ [Some h] else queue w);
          c0 = counters w;
          c1 = (if \<not> is_robot h \<and> \<not> is_redirect h \<and> is_meta h
                then c0\<lparr>count_lines_static := Suc (count_lines_static c0)\<rparr> else c0);
          c2 = (if \<not> is_robot h \<and> \<not> is_redirect h \<and> is_download h
                then c1\<lparr>count_lines_downloads := Suc (count_lines_downloads c1)\<rparr> else c1)
      in w\<lparr>queue := q1, counters := c2\<rparr>)"

text \<open>Lines 1339 to 1357: the date, then the time zone subtracted from it. \<open>None\<close> is
  \<^verbatim>\<open>invalid_line\<close> followed by \<^verbatim>\<open>continue\<close>.\<close>

definition parse_date :: "'t env \<Rightarrow> format \<Rightarrow> exn + 't option" where
  "parse_date env f0 =
     (case get (unquote env) f0 ''date'' of
        (Inl e, f1) \<Rightarrow> Inl e
      | (Inr date_string, f1) \<Rightarrow>
          (case parseTime env date_string of
             Inl (ValueError t) \<Rightarrow> Inr None
           | Inl e \<Rightarrow> Inl e
           | Inr d \<Rightarrow>
               (case get_float (unquote env) f1 ''timezone'' of
                  (Inl BaseFormatException, f2) \<Rightarrow> Inr (Some d)
                | (Inl (ValueError t), f2) \<Rightarrow> Inr None
                | (Inl e, f2) \<Rightarrow> Inl e
                | (Inr timezone, f2) \<Rightarrow>
                    if float_truthy timezone
                    then (case minus_hours env d (float_div timezone 100) of
                            Inl e \<Rightarrow> Inl e
                          | Inr d' \<Rightarrow> Inr (Some d'))
                    else Inr (Some d))))"

definition parse_line ::
  "'t env \<Rightarrow> string \<Rightarrow> int \<Rightarrow> string \<Rightarrow> 't world \<Rightarrow> 't outcome \<times> 't world" where
  "parse_line env fname n line w0 =
     (let c = (counters w0)\<lparr>count_lines_parsed := Suc (count_lines_parsed (counters w0))\<rparr>;
          w = w0\<lparr>counters := c\<rparr>
      in if int (count_lines_parsed c) \<le> skip env then (Skipped, w)
         else (case match_line env line of
                 None \<Rightarrow> (NotMatched, w)
               | Some f0 \<Rightarrow>
                   (case make_hit env fname n f0 of
                      (Inl e, f1) \<Rightarrow> (Raised e, w)
                    | (Inr h, f1) \<Rightarrow>
                        (case run_checks env h c of
                           (Inl e, c') \<Rightarrow> (Raised e, w\<lparr>counters := c'\<rparr>)
                         | (Inr (ok, h'), c') \<Rightarrow>
                             if \<not> ok then (Excluded, w\<lparr>counters := c'\<rparr>)
                             else (case parse_date env f1 of
                                     Inl e \<Rightarrow> (Raised e, w\<lparr>counters := c'\<rparr>)
                                   | Inr None \<Rightarrow> (InvalidLine, w\<lparr>counters := c'\<rparr>)
                                   | Inr (Some d) \<Rightarrow>
                                       (let hit = h'\<lparr>date := Some d\<rparr>
                                        in if is_filtered hit then (Filtered, w\<lparr>counters := c'\<rparr>)
                                           else (Handled hit,
                                                 deliver hit (w\<lparr>counters := c'\<rparr>))))))))"

section \<open>Format detection (\<^verbatim>\<open>Parser.check_format\<close>)\<close>

text \<open>
  \<^verbatim>\<open>FORMATS\<close>, in the order of the dictionary literal, each name with the class of its
  format object. \<^verbatim>\<open>check_format_line\<close> and \<^verbatim>\<open>check_format\<close> of \<^verbatim>\<open>RegexFormat\<close> and of
  the \<^verbatim>\<open>W3cExtendedFormat\<close> family return a regex match object or \<^verbatim>\<open>None\<close>; those of
  \<^verbatim>\<open>JsonFormat\<close> return \<^verbatim>\<open>True\<close> or \<^verbatim>\<open>False\<close>.
\<close>

datatype format_class = Regex | W3cExtended | Json

definition FORMATS :: "(string \<times> format_class) list" where
  "FORMATS =
     [(''common'', Regex), (''common_vhost'', Regex), (''ncsa_extended'', Regex),
      (''common_complete'', Regex), (''w3c_extended'', W3cExtended),
      (''amazon_cloudfront'', W3cExtended), (''iis'', W3cExtended),
      (''shoutcast'', W3cExtended), (''s3'', Regex), (''icecast2'', Regex),
      (''elb'', Regex), (''nginx_json'', Json), (''ovh'', Regex)]"

text \<open>
  What the check of one candidate leaves in \<^verbatim>\<open>match\<close>: nothing (no match, or an
  exception, which the loop swallows), a match object with its \<^verbatim>\<open>len(match.groups())\<close>,
  or \<^verbatim>\<open>True\<close>, which has no \<^verbatim>\<open>groups\<close>. The input (a line or a file) enters through
  \<open>groups\<close>, the group count of each regex candidate that matches it, and \<open>json_ok\<close>,
  whether it decodes as JSON.
\<close>

datatype match_result = NoMatch | MatchGroups nat | MatchTrue

definition check_candidate ::
  "(string \<Rightarrow> nat option) \<Rightarrow> bool \<Rightarrow> string \<times> format_class \<Rightarrow> match_result" where
  "check_candidate groups json_ok c =
     (case snd c of
        Json \<Rightarrow> if json_ok then MatchTrue else NoMatch
      | _ \<Rightarrow> (case groups (fst c) of None \<Rightarrow> NoMatch | Some n \<Rightarrow> MatchGroups n))"

fun check_format_loop ::
  "(string \<times> format_class \<Rightarrow> match_result) \<Rightarrow> (string \<times> format_class) list \<Rightarrow>
   string option \<Rightarrow> nat \<Rightarrow> string option" where
  "check_format_loop probe [] format format_groups = format"
| "check_format_loop probe (c # rest) format format_groups =
     (if fst c = ''ovh'' then check_format_loop probe rest format format_groups
      else (case probe c of
              NoMatch \<Rightarrow> check_format_loop probe rest format format_groups
            | MatchGroups match_groups \<Rightarrow>
                if format_groups < match_groups
                then check_format_loop probe rest (Some (fst c)) match_groups
                else check_format_loop probe rest format format_groups
            | MatchTrue \<Rightarrow> check_format_loop probe rest (Some (fst c)) format_groups))"

text \<open>The name of the format returned, \<open>None\<close> for \<^verbatim>\<open>False\<close>.\<close>

definition check_format :: "(string \<Rightarrow> nat option) \<Rightarrow> bool \<Rightarrow> string option" where
  "check_format groups json_ok =
     check_format_loop (check_candidate groups json_ok) FORMATS None 0"

section \<open>Run state (class \<open>State\<close>)\<close>

text \<open>
  \<^verbatim>\<open>State\<close> holds the stop flag and the stop reason behind one lock. Every method
  body runs with the lock held, so each call is one atomic step on the record and any
  interleaving of calls from several threads is a sequence of such steps.
  \<^verbatim>\<open>__init__\<close> sets \<^verbatim>\<open>_stopped = True\<close>, \<^verbatim>\<open>_reason = None\<close>. A reason is a text, or
  \<open>EncounteredError m file\<close> for \<^verbatim>\<open>f"Encountered error {e} in file {file}"\<close> where \<open>m\<close> is
  the message of \<^verbatim>\<open>e\<close>.
\<close>

datatype reason =
    ReasonText string
  | EncounteredError message string

record State =
  stopped :: bool
  reason :: "reason option"

definition State_init :: State where
  "State_init = \<lparr>stopped = True, reason = None\<rparr>"

definition is_stopped :: "State \<Rightarrow> bool" where
  "is_stopped s = stopped s"

definition start :: "State \<Rightarrow> State" where
  "start s = s\<lparr>stopped := False\<rparr>"

definition stop :: "reason option \<Rightarrow> State \<Rightarrow> State" where
  "stop r s = (if stopped s then s else s\<lparr>stopped := True, reason := r\<rparr>)"

text \<open>A sequence of \<^verbatim>\<open>stop\<close> calls, in the order in which they take the lock.\<close>

fun stop_all :: "reason option list \<Rightarrow> State \<Rightarrow> State" where
  "stop_all [] s = s"
| "stop_all (r # rs) s = stop_all rs (stop r s)"

section \<open>The transport client (\<^verbatim>\<open>Matomo._call_wrapper\<close>)\<close>

text \<open>
  \<^verbatim>\<open>config.options\<close> as far as the transport and the recorder read it; \<open>None\<close> is a key
  that is missing. The wrapper looks the two retry options up inside a
  \<^verbatim>\<open>try ... except NameError\<close>: with no \<^verbatim>\<open>config\<close> object at all it takes
  \<^verbatim>\<open>MATOMO_DEFAULT_DELAY_AFTER_FAILURE\<close> and \<^verbatim>\<open>MATOMO_DEFAULT_MAX_ATTEMPTS\<close>; a missing key is
  a \<^verbatim>\<open>KeyError\<close>, which that handler does not catch.
\<close>

record options =
  delay_after_failure :: "int option"
  default_max_attempts :: "int option"
  token_auth :: "string option"

definition MATOMO_DEFAULT_MAX_ATTEMPTS :: int where
  "MATOMO_DEFAULT_MAX_ATTEMPTS = 3"

definition MATOMO_DEFAULT_DELAY_AFTER_FAILURE :: int where
  "MATOMO_DEFAULT_DELAY_AFTER_FAILURE = 10"

definition retry_settings :: "options option \<Rightarrow> exn + int \<times> int" where
  "retry_settings config = (case config of
       None \<Rightarrow> Inr (MATOMO_DEFAULT_DELAY_AFTER_FAILURE, MATOMO_DEFAULT_MAX_ATTEMPTS)
     | Some opts \<Rightarrow>
         (case delay_after_failure opts of
            None \<Rightarrow> Inl (KeyError ''delay_after_failure'')
          | Some delay \<Rightarrow>
              (case default_max_attempts opts of
                 None \<Rightarrow> Inl (KeyError ''default_max_attempts'')
               | Some max_attempts \<Rightarrow> Inr (delay, max_attempts))))"

text \<open>
  The world outside: \<open>sent\<close> is the \<^verbatim>\<open>data\<close> of every call of \<^verbatim>\<open>func\<close> so far, oldest
  first, \<open>slept\<close> the argument of every \<^verbatim>\<open>time.sleep\<close>. The transport \<^verbatim>\<open>func\<close> is any
  function of the number of calls made before and of the data it is called with: it
  returns the response or raises.
\<close>

record 'd net =
  sent :: "'d list"
  slept :: "int list"

text \<open>The body of the \<^verbatim>\<open>try\<close>: the response, or the exception raised, and \<^verbatim>\<open>data\<close> as the
  failure callback left it.\<close>

definition attempt ::
  "(nat \<Rightarrow> 'd \<Rightarrow> exn + string) \<Rightarrow> string option \<Rightarrow>
   (string \<Rightarrow> 'd \<Rightarrow> (exn + message) \<times> 'd) option \<Rightarrow> nat \<Rightarrow> 'd \<Rightarrow> (exn + string) \<times> 'd" where
  "attempt func expected_response on_failure n data =
     (case func n data of
        Inl e \<Rightarrow> (Inl e, data)
      | Inr response \<Rightarrow>
          (case expected_response of
             None \<Rightarrow> (Inr response, data)
           | Some expected \<Rightarrow>
               if response \<noteq> expected
               then (case on_failure of
                       Some callback \<Rightarrow>
                         (case callback response data of
                            (Inl e, data') \<Rightarrow> (Inl e, data')
                          | (Inr error_message, data') \<Rightarrow> (Inl (URLError error_message), data'))
                     | None \<Rightarrow> (Inl (URLError (MsgUnexpected response)), data))
               else (Inr response, data)))"

text \<open>\<^verbatim>\<open>except (urllib.error.URLError, http.client.HTTPException, ValueError,
  socket.timeout)\<close>, and the message and code the handler computes.\<close>

definition caught :: "exn \<Rightarrow> bool" where
  "caught e = (case e of
       URLError m \<Rightarrow> True
     | HTTPError c m b \<Rightarrow> True
     | HTTPException t \<Rightarrow> True
     | ValueError t \<Rightarrow> True
     | SocketTimeout t \<Rightarrow> True
     | _ \<Rightarrow> False)"

definition failure_message :: "exn \<Rightarrow> message" where
  "failure_message e = (case e of
       HTTPError c m b \<Rightarrow>
         (case b of None \<Rightarrow> MsgHTTP c m | Some body \<Rightarrow> MsgWithBody (MsgHTTP c m) body)
     | URLError m \<Rightarrow> m
     | HTTPException t \<Rightarrow> MsgStr t
     | ValueError t \<Rightarrow> MsgStr t
     | SocketTimeout t \<Rightarrow> MsgStr t
     | _ \<Rightarrow> MsgStr [])"

definition failure_code :: "exn \<Rightarrow> int option" where
  "failure_code e = (case e of HTTPError c m b \<Rightarrow> Some c | _ \<Rightarrow> None)"

text \<open>
  The \<^verbatim>\<open>while True\<close> loop, \<open>errors\<close> failures after the start. The result is the response
  or the exception that leaves the wrapper, \<^verbatim>\<open>data\<close> as it is then, and the world.
  \<^verbatim>\<open>time.sleep\<close> raises \<^verbatim>\<open>ValueError\<close> on a negative delay, inside the handler.
\<close>

function call_wrapper_loop ::
  "options option \<Rightarrow> (nat \<Rightarrow> 'd \<Rightarrow> exn + string) \<Rightarrow> string option \<Rightarrow>
   (string \<Rightarrow> 'd \<Rightarrow> (exn + message) \<times> 'd) option \<Rightarrow> nat \<Rightarrow> 'd \<Rightarrow> 'd net \<Rightarrow>
   (exn + string) \<times> 'd \<times> 'd net" where
  "call_wrapper_loop config func expected_response on_failure errors data net =
     (case attempt func expected_response on_failure (length (sent net)) data of
        (Inr response, data') \<Rightarrow> (Inr response, data', net\<lparr>sent := sent net @ [data]\<rparr>)
      | (Inl e, data') \<Rightarrow>
          if \<not> caught e then (Inl e, data', net\<lparr>sent := sent net @ [data]\<rparr>)
          else (case retry_settings config of
                  Inl ke \<Rightarrow> (Inl ke, data', net\<lparr>sent := sent net @ [data]\<rparr>)
                | Inr (delay, max_attempts) \<Rightarrow>
                    if int (Suc errors) < max_attempts
                    then (if delay < 0
                          then (Inl (ValueError ''sleep length must be non-negative''), data',
                                net\<lparr>sent := sent net @ [data]\<rparr>)
                          else call_wrapper_loop config func expected_response on_failure
                                 (Suc errors) data'
                                 (net\<lparr>sent := sent net @ [data], slept := slept net @ [delay]\<rparr>))
                    else (Inl (MatomoError (failure_message e) (failure_code e)), data',
                          net\<lparr>sent := sent net @ [data]\<rparr>)))"
  by pat_completeness auto
termination
  by (relation "measure (\<lambda>(config, func, expected_response, on_failure, errors, data, net).
        case retry_settings config of Inl ke \<Rightarrow> 0 | Inr (delay, m) \<Rightarrow> nat (m - int errors))")
     auto

declare call_wrapper_loop.simps [simp del]

definition call_wrapper ::
  "options option \<Rightarrow> (nat \<Rightarrow> 'd \<Rightarrow> exn + string) \<Rightarrow> string option \<Rightarrow>
   (string \<Rightarrow> 'd \<Rightarrow> (exn + message) \<times> 'd) option \<Rightarrow> 'd \<Rightarrow> 'd net \<Rightarrow>
   (exn + string) \<times> 'd \<times> 'd net" where
  "call_wrapper config func expected_response on_failure data net =
     call_wrapper_loop config func expected_response on_failure 0 data net"

section \<open>The recorder (\<^verbatim>\<open>Recorder\<close>)\<close>

text \<open>The \<^verbatim>\<open>data\<close> of a bulk request: \<^verbatim>\<open>{'token_auth': ..., 'requests': [...]}\<close>.\<close>

record 'r payload =
  token :: string
  requests :: "'r list"

text \<open>\<^verbatim>\<open>xs[k:]\<close> for an integer \<open>k\<close>, and for any value as the bound.\<close>

definition slice_from_int :: "int \<Rightarrow> 'a list \<Rightarrow> 'a list" where
  "slice_from_int k xs =
     (if 0 \<le> k then drop (nat k) xs else drop (length xs - nat (- k)) xs)"

definition slice_from :: "pyval \<Rightarrow> 'a list \<Rightarrow> exn + 'a list" where
  "slice_from v xs = (case v of
       PInt k \<Rightarrow> Inr (slice_from_int k xs)
     | PBool b \<Rightarrow> Inr (slice_from_int (if b then 1 else 0) xs)
     | PNone \<Rightarrow> Inr xs
     | _ \<Rightarrow> Inl TypeError)"

text \<open>
  \<^verbatim>\<open>Recorder._on_tracking_failure(response, data)\<close>. \<open>decode\<close> is
  \<^verbatim>\<open>json.loads(response.decode('utf-8'))\<close>, \<open>None\<close> when it raises.
\<close>

definition on_tracking_failure ::
  "(string \<Rightarrow> pyval option) \<Rightarrow> string \<Rightarrow> 'r payload \<Rightarrow> (exn + message) \<times> 'r payload" where
  "on_tracking_failure decode response data =
     (case decode response of
        None \<Rightarrow> (Inr (MsgBytes response), data)
      | Some r \<Rightarrow>
          (case getitem r ''tracked'' of
             Inl e \<Rightarrow> (Inl e, data)
           | Inr tracked \<Rightarrow>
               (case slice_from tracked (requests data) of
                  Inl e \<Rightarrow> (Inl e, data)
                | Inr rest \<Rightarrow>
                    (case getitem r ''message'' of
                       Inl e \<Rightarrow> (Inl e, data\<lparr>requests := rest\<rparr>)
                     | Inr m \<Rightarrow> (Inr (MsgValue m), data\<lparr>requests := rest\<rparr>)))))"

text \<open>\<^verbatim>\<open>key in response\<close> for a string key.\<close>

definition is_infix :: "string \<Rightarrow> string \<Rightarrow> bool" where
  "is_infix p t = list_ex (\<lambda>i. take (length p) (drop i t) = p) [0 ..< Suc (length t)]"

definition contains :: "pyval \<Rightarrow> string \<Rightarrow> exn + bool" where
  "contains v key = (case v of
       PDict d \<Rightarrow> Inr (map_of d key \<noteq> None)
     | PList l \<Rightarrow> Inr (PStr key \<in> set l)
     | PStr t \<Rightarrow> Inr (is_infix key t)
     | _ \<Rightarrow> Inl TypeError)"

text \<open>\<^verbatim>\<open>self.hits[index].lineno\<close> for every index of the list, up to the first that
  raises.\<close>

definition hit_at :: "'h list \<Rightarrow> pyval \<Rightarrow> exn + 'h" where
  "hit_at hs v =
     (case (case v of PInt i \<Rightarrow> Some i | PBool b \<Rightarrow> Some (if b then 1 else 0) | _ \<Rightarrow> None) of
        None \<Rightarrow> Inl TypeError
      | Some i \<Rightarrow>
          (let j = (if i < 0 then int (length hs) + i else i)
           in if 0 \<le> j \<and> j < int (length hs) then Inr (hs ! nat j) else Inl IndexError))"

fun invalid_lines :: "'h list \<Rightarrow> pyval list \<Rightarrow> exn option" where
  "invalid_lines hs [] = None"
| "invalid_lines hs (v # vs) =
     (case hit_at hs v of Inl e \<Rightarrow> Some e | Inr h \<Rightarrow> invalid_lines hs vs)"

definition positive :: "pyval \<Rightarrow> exn + bool" where
  "positive v = (case v of
       PInt i \<Rightarrow> Inr (0 < i)
     | PBool b \<Rightarrow> Inr b
     | PFloat x \<Rightarrow> Inr (case x of Fin m e \<Rightarrow> 0 < m | PosInf \<Rightarrow> True | _ \<Rightarrow> False)
     | _ \<Rightarrow> Inl TypeError)"

text \<open>The inspection of the decoded reply in \<^verbatim>\<open>_record_hits\<close>, which only logs: the
  exception it raises, if any.\<close>

definition check_reply :: "pyval \<Rightarrow> 'h list \<Rightarrow> exn option" where
  "check_reply response hs =
     (case contains response ''invalid_indices'' of
        Inl e \<Rightarrow> Some e
      | Inr has_indices \<Rightarrow>
          (case (if has_indices then getitem response ''invalid_indices'' else Inr PNone) of
             Inl e \<Rightarrow> Some e
           | Inr indices \<Rightarrow>
               (case indices of
                  PList (v # vs) \<Rightarrow> invalid_lines hs (v # vs)
                | _ \<Rightarrow>
                    (case contains response ''invalid'' of
                       Inl e \<Rightarrow> Some e
                     | Inr has_invalid \<Rightarrow>
                         if has_invalid
                         then (case getitem response ''invalid'' of
                                 Inl e \<Rightarrow> Some e
                               | Inr v \<Rightarrow> (case positive v of Inl e \<Rightarrow> Some e | Inr b \<Rightarrow> None))
                         else None))))"

text \<open>
  \<^verbatim>\<open>[self._get_hit_args(hit) for hit in self.hits]\<close>. \<^verbatim>\<open>_get_hit_args\<close> builds the request
  of a hit and updates the hit (it cuts the referrer at \<^verbatim>\<open>?\<close>); it is taken as a function
  \<open>g\<close> that returns both or raises, leaving the hit as it was.
\<close>

fun hit_args_all :: "('h \<Rightarrow> exn + 'r \<times> 'h) \<Rightarrow> 'h list \<Rightarrow> (exn + 'r list) \<times> 'h list" where
  "hit_args_all g [] = (Inr [], [])"
| "hit_args_all g (h # hs) =
     (case g h of
        Inl e \<Rightarrow> (Inl e, h # hs)
      | Inr (r, h') \<Rightarrow>
          (case hit_args_all g hs of
             (Inl e, hs') \<Rightarrow> (Inl e, h' # hs')
           | (Inr rs, hs') \<Rightarrow> (Inr (r # rs), h' # hs')))"

text \<open>
  What a recorder works with, and what it changes: its own batch \<open>hits\<close>, the shared
  run state, the counter of recorded lines, the network, and the number of
  \<^verbatim>\<open>queue.task_done()\<close> calls.
\<close>

record ('t, 'r) recorder_env =
  config :: options
  threshold :: nat
  get_hit_args :: "'t Hit \<Rightarrow> exn + 'r \<times> 't Hit"
  func :: "nat \<Rightarrow> 'r payload \<Rightarrow> exn + string"
  decode :: "string \<Rightarrow> pyval option"

record ('t, 'r) recorder =
  hits :: "'t Hit list"
  state :: State
  lines_recorded :: nat
  network :: "'r payload net"
  tasks_done :: nat

text \<open>\<^verbatim>\<open>Recorder._record_hits\<close>: the exception that leaves it, if any, and the recorder
  afterwards. \<^verbatim>\<open>Matomo.call\<close> passes \<^verbatim>\<open>expected_content=None\<close> on to the wrapper.\<close>

definition record_hits ::
  "('t, 'r) recorder_env \<Rightarrow> ('t, 'r) recorder \<Rightarrow> exn option \<times> ('t, 'r) recorder" where
  "record_hits env w =
     (if length (hits w) = 0 then (None, w)
      else (case token_auth (config env) of
              None \<Rightarrow> (Some (KeyError ''token_auth''), w)
            | Some tok \<Rightarrow>
                (case hit_args_all (get_hit_args env) (hits w) of
                   (Inl e, hs) \<Rightarrow> (Some e, w\<lparr>hits := hs\<rparr>)
                 | (Inr reqs, hs) \<Rightarrow>
                     (case call_wrapper (Some (config env)) (func env) None
                             (Some (on_tracking_failure (decode env)))
                             \<lparr>token = tok, requests = reqs\<rparr> (network w) of
                        (Inl e, data, net) \<Rightarrow> (Some e, w\<lparr>hits := hs, network := net\<rparr>)
                      | (Inr response, data, net) \<Rightarrow>
                          (case check_reply
                                  (case decode env response of None \<Rightarrow> PDict [] | Some r \<Rightarrow> r)
                                  hs of
                             Some e \<Rightarrow> (Some e, w\<lparr>hits := hs, network := net\<rparr>)
                           | None \<Rightarrow>
                               (None, w\<lparr>hits := [], network := net,
                                        lines_recorded := lines_recorded w + length hs\<rparr>))))))"





section \<open>A sample configuration\<close>

text \<open>
  A configuration and a log line to run the definitions on: one download pattern, one
  robot pattern, IP anonymization on, dates as a count of seconds. \<open>sample_fields p\<close> is
  the \<^verbatim>\<open>groupdict()\<close> of a line in the \<^verbatim>\<open>ncsa_extended\<close> format that requests the path \<open>p\<close>,
  without its time zone.
\<close>

definition sample_fields :: "string \<Rightarrow> (string \<times> pyval) list" where
  "sample_fields p =
     [(''ip'', PStr ''203.0.113.77''), (''userid'', PStr ''-''),
      (''date'', PStr ''10/Oct/2000:13:55:36''), (''method'', PStr ''GET''),
      (''path'', PStr p), (''status'', PStr ''200''), (''length'', PStr ''2326''),
      (''referrer'', PStr ''-''), (''user_agent'', PStr ''-'')]"

definition sample_env :: "nat env" where
  "sample_env =
     \<lparr>ip_anonymization = True,
      oaipmh_preamble = ''oai:example.org:'',
      tracking_metadata = [],
      tracking_download = [\<lambda>p. if startswith p ''/download/'' then Some (Group p) else None],
      user_agents = [\<lambda>ua. startswith ua ''bot''],
      unquote = (\<lambda>t. t),
      skip = 0,
      match_line = (\<lambda>line. if line = [] then None else Some (RegexFormat (sample_fields line))),
      parseTime = (\<lambda>v. Inr 0),
      minus_hours = (\<lambda>d h. Inr d)\<rparr>"

definition sample_world :: "nat world" where
  "sample_world =
     \<lparr>queue = [],
      counters = \<lparr>count_lines_parsed = 0, count_lines_recorded = 0, count_lines_static = 0,
                  count_lines_skipped_user_agent = 0, count_lines_downloads = 0\<rparr>\<rparr>"

text \<open>A hit as \<^verbatim>\<open>Parser.parse\<close> hands it on, with the line number and status given.\<close>

definition sample_hit :: "int \<Rightarrow> pyval \<Rightarrow> nat Hit" where
  "sample_hit n st =
     \<lparr>filename = ''access.log'', lineno = n, status = st, full_path = PStr ''/x'',
      is_meta = False, is_download = False, is_robot = False, is_error = False,
      is_redirect = False, args = \<lparr>uid = None, cvar = []\<rparr>, query_string = [],
      path = PStr ''/x'', referrer = [], user_agent = [], ip = PStr ''203.0.0.0'',
      length' = 0, generation_time_milli = PInt 0, host = None, userid = PNone,
      event_category = PNone, event_action = PNone, event_name = PNone, date = Some 0\<rparr>"


text \<open>
  The input of a detection: the line \<^verbatim>\<open>123\<close> of a file whose header is
  \<^verbatim>\<open>#Fields: sc-status\<close>, when the first data line did not match. The four formats of the
  W3C family have built the regex \<^verbatim>\<open>(?P<status>\d+)\<close> from the header and match the line
  with one group; no other regex matches it.
\<close>

definition sample_groups :: "string \<Rightarrow> nat option" where
  "sample_groups name =
     (if name \<in> set [''w3c_extended'', ''amazon_cloudfront'', ''iis'', ''shoutcast'']
      then Some 1 else None)"



text \<open>
  A collector and a recorder to run the delivery on: the body of the collector's error
  reply reports four tracked requests; \<open>sample_failing_func\<close> answers every request with
  that HTTP error, \<open>sample_flaky_func\<close> only the first one, and with \<open>sample_reset_func\<close>
  every read of the response ends in a \<^verbatim>\<open>ConnectionResetError\<close>; \<^verbatim>\<open>_get_hit_args\<close> is the
  line number of the hit; the batch holds the hits of lines 1 to 10.
\<close>

definition sample_error_body :: string where
  \<open>sample_error_body = ''{"status":"error","tracked":4,"message":"Internal error"}''\<close>

definition sample_decode :: "string \<Rightarrow> pyval option" where
  "sample_decode r =
     (if r = sample_error_body
      then Some (PDict [(''status'', PStr ''error''), (''tracked'', PInt 4),
                        (''message'', PStr ''Internal error'')])
      else if r = ''{}'' then Some (PDict [])
      else None)"

definition sample_options :: options where
  "sample_options =
     \<lparr>delay_after_failure = Some 10, default_max_attempts = Some 3,
      token_auth = Some ''secret''\<rparr>"


definition sample_flaky_func :: "nat \<Rightarrow> int payload \<Rightarrow> exn + string" where
  "sample_flaky_func k data =
     (if k = 0 then Inl (HTTPError 500 ''Internal Server Error'' (Some sample_error_body))
      else Inr ''{}'')"


definition sample_recorder_env ::
  "(nat \<Rightarrow> int payload \<Rightarrow> exn + string) \<Rightarrow> (nat, int) recorder_env" where
  "sample_recorder_env f =
     \<lparr>config = sample_options, threshold = 200,
      get_hit_args = (\<lambda>h. Inr (lineno h, h)), func = f, decode = sample_decode\<rparr>"

definition sample_batch :: "nat Hit list" where
  "sample_batch = map (\<lambda>n. sample_hit n (PStr ''200'')) [1, 2, 3, 4, 5, 6, 7, 8, 9, 10]"

definition sample_recorder :: "nat Hit list \<Rightarrow> (nat, int) recorder" where
  "sample_recorder hs =
     \<lparr>hits = hs, state = start State_init, lines_recorded = 0,
      network = \<lparr>sent = [], slept = []\<rparr>, tasks_done = 0\<rparr>"


section \<open>The claimed derivation of the generation time\<close>

text \<open>
  The rule as the specification words it, for the named groups \<open>m\<close> of a regex match:
  the first of the fields milliseconds, microseconds, seconds that is present and
  numeric, microseconds divided by 1000, seconds multiplied by 1000, and 0 without
  one. It is compared with \<open>generation_time\<close>, the source's code, below.
\<close>

definition numeric_field :: "(string \<times> pyval) list \<Rightarrow> string \<Rightarrow> pyfloat option" where
  "numeric_field m key = (case map_of m key of
       Some (PStr t) \<Rightarrow> (case float_of_string t of Inr x \<Rightarrow> Some x | Inl e \<Rightarrow> None)
     | _ \<Rightarrow> None)"

definition generation_time_spec :: "(string \<times> pyval) list \<Rightarrow> pyval" where
  "generation_time_spec m =
     (case numeric_field m ''generation_time_milli'' of
        Some x \<Rightarrow> PFloat x
      | None \<Rightarrow>
          (case numeric_field m ''generation_time_micro'' of
             Some x \<Rightarrow> PFloat (float_div x 1000)
           | None \<Rightarrow>
               (case numeric_field m ''generation_time_secs'' of
                  Some x \<Rightarrow> PFloat (float_mul x 1000)
                | None \<Rightarrow> PInt 0)))"


section \<open>Properties\<close>

subsection \<open>Evaluation of the sample\<close>

lemmas normalizer_defs =
  make_hit_def and_then_def field_or_empty_def regex_get_def referrer_field_def
  user_agent_field_def strip_quotes_def startswith_def slice_1_m1_def ip_field_def
  anonymize_def length_field_def int_of_string_def strip_chars_def whitespace_def
  split_sign_def digitpart_def is_digit_def digits_value_def digit_val_def
  generation_time_def get_float_def recoverable_def host_field_def userid_field_def
  event_fields_def lower_def lower_char_def upper_chars_def

lemmas parser_defs =
  parse_line_def run_checks_def and_check_def check_download_def check_static_def
  check_http_error_def check_http_redirect_def check_user_agent_def first_item_def
  finalOAIpmh_def after_last_slash_def add_page_custom_var_def parse_date_def
  is_filtered_def deliver_def

subsection \<open>What \<^verbatim>\<open>format.get\<close> leaves of the format object\<close>

lemma get_keeps:
  "key \<noteq> ''generation_time_milli'' \<Longrightarrow> key \<noteq> ''date'' \<Longrightarrow> snd (get uq f key) = f"
  by (cases f) (simp_all add: json_patch_def)

lemma field_or_empty_state:
  "field_or_empty uq f key = (v, f') \<Longrightarrow> key \<noteq> ''generation_time_milli'' \<Longrightarrow>
   key \<noteq> ''date'' \<Longrightarrow> f' = f \<and> fst (field_or_empty uq f key) = v"
  using get_keeps [of key uq f]
  by (auto simp add: field_or_empty_def split: prod.splits sum.splits)

lemma referrer_field_state:
  "referrer_field uq f = (r, f') \<Longrightarrow> f' = f \<and> fst (referrer_field uq f) = r"
  using get_keeps [of "''referrer''" uq f]
  by (auto simp add: referrer_field_def split: prod.splits sum.splits exn.splits)

lemma user_agent_field_state:
  "user_agent_field uq f = (r, f') \<Longrightarrow> f' = f \<and> fst (user_agent_field uq f) = r"
  using get_keeps [of "''user_agent''" uq f]
  by (auto simp add: user_agent_field_def split: prod.splits sum.splits exn.splits)

lemma ip_field_state:
  "ip_field b uq f = (r, f') \<Longrightarrow> f' = f \<and> fst (ip_field b uq f) = r"
  using get_keeps [of "''ip''" uq f]
  by (auto simp add: ip_field_def split: prod.splits sum.splits)

lemma length_field_state:
  "length_field uq f = (r, f') \<Longrightarrow> f' = f \<and> fst (length_field uq f) = r"
  using get_keeps [of "''length''" uq f]
  by (auto simp add: length_field_def split: prod.splits sum.splits if_splits)

text \<open>The fields of the hit that enters the filter chain, in terms of the format object
  the line gave.\<close>

lemma make_hit_fields:
  assumes "make_hit env fname n f = (Inr h, f')"
  shows "fst (referrer_field (unquote env) f) = Inr (referrer h)"
    and "fst (user_agent_field (unquote env) f) = Inr (user_agent h)"
    and "fst (ip_field (ip_anonymization env) (unquote env) f) = Inr (ip h)"
    and "fst (generation_time (unquote env) f) = Inr (generation_time_milli h)"
    and "status h = fst (field_or_empty (unquote env) f ''status'')"
    and "\<not> is_meta h \<and> \<not> is_download h \<and> \<not> is_robot h \<and> \<not> is_error h \<and> \<not> is_redirect h"
  using assms
  by (auto simp add: make_hit_def and_then_def
      split: prod.splits sum.splits
      dest!: field_or_empty_state referrer_field_state user_agent_field_state ip_field_state
        length_field_state)

lemma sample_make_hit:
  "\<exists>h. make_hit sample_env ''access.log'' 0 (RegexFormat (sample_fields ''/download/12/a.pdf''))
         = (Inr h, RegexFormat (sample_fields ''/download/12/a.pdf''))"
  by (simp add: normalizer_defs sample_env_def sample_fields_def)

subsection \<open>The run state\<close>

lemma stop_all_stopped: "stopped s \<Longrightarrow> stop_all rs s = s"
  by (induction rs arbitrary: s) (simp_all add: stop_def)

text \<open>
  C9. After \<^verbatim>\<open>State.start\<close> the state is running. The first \<^verbatim>\<open>stop\<close> call of any
  sequence sets the flag and stores its own reason; whatever calls follow, with whatever
  reasons, the state stays exactly what the first call made it (the first reason wins).
\<close>

theorem stop_first_reason_wins:
  "stopped (start s) = False
   \<and> stop r (start s) = s\<lparr>stopped := True, reason := r\<rparr>
   \<and> stop_all (r # rs) (start s) = stop r (start s)
   \<and> stopped (stop_all (r # rs) (start s)) = True
   \<and> reason (stop_all (r # rs) (start s)) = r"
proof -
  have a: "stop r (start s) = s\<lparr>stopped := True, reason := r\<rparr>"
    by (simp add: stop_def start_def)
  have "stopped (stop r (start s))"
    by (simp add: a)
  then have b: "stop_all rs (stop r (start s)) = stop r (start s)"
    by (rule stop_all_stopped)
  have c: "stop_all (r # rs) (start s) = stop r (start s)"
    using b by simp
  have d: "stopped (start s) = False"
    by (simp add: start_def)
  show ?thesis
    unfolding c a using d by simp
qed

subsection \<open>Delivery\<close>

lemma parse_line_queue:
  "parse_line env fname n line w = (out, w') \<Longrightarrow>
   queue w' = (case out of Handled h \<Rightarrow> queue (deliver h w) | _ \<Rightarrow> queue w)"
  by (auto simp add: parse_line_def Let_def deliver_def is_filtered_def
      split: if_splits option.splits prod.splits sum.splits)

text \<open>
  C1. A line that \<^verbatim>\<open>Parser.parse\<close> handles to the end (it matched, no check rejected
  it, its date and time zone parsed) leaves a hit \<open>h\<close>. The queue afterwards is the queue
  before with \<open>h\<close> appended if \<open>h\<close> is not a robot hit, not a redirect, and is metadata or
  a download; otherwise it is the queue before. So the hit is enqueued if and only if
  the three conditions hold.
\<close>

theorem parse_line_enqueues_iff:
  assumes "parse_line env fname n line w = (Handled h, w')"
  shows "queue w' =
           (if \<not> is_robot h \<and> \<not> is_redirect h \<and> (is_meta h \<or> is_download h)
            then queue w @ [Some h] else queue w)"
  using parse_line_queue [OF assms] by (auto simp add: deliver_def Let_def)

theorem parse_line_enqueues_iff_witness:
  "\<exists>h w'. parse_line sample_env ''access.log'' 0 ''/download/12/a.pdf'' sample_world
            = (Handled h, w')
          \<and> is_download h \<and> \<not> is_robot h \<and> \<not> is_redirect h
          \<and> queue w' = queue sample_world @ [Some h]"
proof -
  have "\<exists>h w'. parse_line sample_env ''access.log'' 0 ''/download/12/a.pdf'' sample_world
                 = (Handled h, w')
               \<and> is_download h \<and> \<not> is_robot h \<and> \<not> is_redirect h"
    by (simp add: parser_defs normalizer_defs sample_env_def sample_fields_def
        sample_world_def Let_def)
  then obtain h w' where
    run: "parse_line sample_env ''access.log'' 0 ''/download/12/a.pdf'' sample_world
            = (Handled h, w')"
    and flags: "is_download h" "\<not> is_robot h" "\<not> is_redirect h"
    by blast
  from parse_line_enqueues_iff [OF run] flags
  have "queue w' = queue sample_world @ [Some h]" by simp
  with run flags show ?thesis by blast
qed

subsection \<open>IP anonymization\<close>



subsection \<open>Flushing a batch\<close>

text \<open>
  C10. \<^verbatim>\<open>_record_hits\<close> on a recorder whose batch is empty returns at once, with no
  exception, and the recorder it leaves is the one it found: nothing was sent, the
  counter of recorded lines and every other part of the state are as before.
\<close>

theorem record_hits_empty_noop:
  "record_hits env (w\<lparr>hits := []\<rparr>) = (None, w\<lparr>hits := []\<rparr>)"
  by (simp add: record_hits_def)

subsection \<open>HTTP status flags\<close>

lemma digit_cases:
  "is_digit c \<Longrightarrow> c = CHR ''0'' \<or> c = CHR ''1'' \<or> c = CHR ''2'' \<or> c = CHR ''3'' \<or> c = CHR ''4''
     \<or> c = CHR ''5'' \<or> c = CHR ''6'' \<or> c = CHR ''7'' \<or> c = CHR ''8'' \<or> c = CHR ''9''"
  by (auto simp add: is_digit_def)

lemma digit_val_range: "is_digit c \<Longrightarrow> 0 \<le> digit_val c \<and> digit_val c \<le> 9"
  by (auto dest!: digit_cases simp add: digit_val_def)

lemma digit_val_3: "is_digit c \<Longrightarrow> (digit_val c = 3) = (c = CHR ''3'')"
  by (auto dest!: digit_cases simp add: digit_val_def)

lemma digit_val_0: "is_digit c \<Longrightarrow> (digit_val c = 0) = (c = CHR ''0'')"
  by (auto dest!: digit_cases simp add: digit_val_def)

lemma digit_val_4: "is_digit c \<Longrightarrow> (digit_val c = 4) = (c = CHR ''4'')"
  by (auto dest!: digit_cases simp add: digit_val_def)

lemma py_int_digit: "is_digit c \<Longrightarrow> py_int (PStr [c]) = Inr (digit_val c)"
  by (auto dest!: digit_cases simp add: int_of_string_def strip_chars_def whitespace_def
      split_sign_def digitpart_def is_digit_def digits_value_def)

lemma three_digits:
  assumes "length s = 3" "\<forall>c\<in>set s. is_digit c"
  obtains a b c where "s = [a, b, c]" "is_digit a" "is_digit b" "is_digit c"
    "digits_value s = 100 * digit_val a + 10 * digit_val b + digit_val c"
proof -
  from assms(1) obtain a b c where s: "s = [a, b, c]"
    by (cases s; cases "tl s"; cases "tl (tl s)") auto
  with assms(2) have "is_digit a" "is_digit b" "is_digit c" by auto
  moreover have "digits_value s = 100 * digit_val a + 10 * digit_val b + digit_val c"
    by (simp add: s digits_value_def)
  ultimately show ?thesis using s that by blast
qed

text \<open>
  C6, as amended. For every hit whose status is a string of three decimal digits:
  \<^verbatim>\<open>check_http_error\<close> returns \<^verbatim>\<open>True\<close> and sets \<open>is_error\<close> exactly when the status lies in
  [400, 599] (it changes nothing else), and \<^verbatim>\<open>check_http_redirect\<close> returns \<^verbatim>\<open>True\<close> and
  sets \<open>is_redirect\<close> exactly when the status lies in [300, 399] and is not 304.
\<close>

theorem http_status_flags:
  assumes "length s = 3" and "\<forall>c\<in>set s. is_digit c" and "status h = PStr s"
  shows "check_http_error h =
           Inr (True, if 400 \<le> digits_value s \<and> digits_value s \<le> 599
                      then h\<lparr>is_error := True\<rparr> else h)
       \<and> check_http_redirect h =
           Inr (True, if 300 \<le> digits_value s \<and> digits_value s \<le> 399 \<and> digits_value s \<noteq> 304
                      then h\<lparr>is_redirect := True\<rparr> else h)"
proof -
  from assms(1,2) obtain a b c where s: "s = [a, b, c]"
    and d: "is_digit a" "is_digit b" "is_digit c"
    and v: "digits_value s = 100 * digit_val a + 10 * digit_val b + digit_val c"
    by (rule three_digits)
  note ra = digit_val_range [OF d(1)] and rb = digit_val_range [OF d(2)]
    and rc = digit_val_range [OF d(3)]
  have first: "first_item (PStr s) = Inr (PStr [a])"
    by (simp add: first_item_def s)
  have e: "(400 \<le> digits_value s \<and> digits_value s \<le> 599) = (4 \<le> digit_val a \<and> digit_val a \<le> 5)"
    unfolding v using ra rb rc by linarith
  have err: "check_http_error h =
           Inr (True, if 400 \<le> digits_value s \<and> digits_value s \<le> 599
                      then h\<lparr>is_error := True\<rparr> else h)"
    unfolding e using py_int_digit [OF d(1)]
    by (simp add: check_http_error_def assms(3) first)
  have "(300 \<le> digits_value s \<and> digits_value s \<le> 399) = (digit_val a = 3)"
    unfolding v using ra rb rc by linarith
  then have r1: "(300 \<le> digits_value s \<and> digits_value s \<le> 399) = (a = CHR ''3'')"
    using digit_val_3 [OF d(1)] by simp
  have r2: "(digits_value s = 304) = (s = ''304'')"
  proof
    assume "digits_value s = 304"
    then have "100 * digit_val a + 10 * digit_val b + digit_val c = 304"
      using v by simp
    with ra rb rc have a3: "digit_val a = 3"
      by linarith
    with \<open>100 * digit_val a + 10 * digit_val b + digit_val c = 304\<close>
    have bc: "10 * digit_val b + digit_val c = 4"
      by simp
    with rb rc have b0: "digit_val b = 0"
      by linarith
    with bc have "digit_val c = 4"
      by simp
    with a3 b0 have "digit_val a = 3 \<and> digit_val b = 0 \<and> digit_val c = 4"
      by simp
    then show "s = ''304''"
      using digit_val_3 [OF d(1)] digit_val_0 [OF d(2)] digit_val_4 [OF d(3)] s by simp
  next
    assume "s = ''304''"
    then show "digits_value s = 304" by (simp add: digits_value_def digit_val_def)
  qed
  have r3: "(PStr [a] = PStr ''3'') = (a = CHR ''3'')"
    by simp
  have red: "check_http_redirect h =
           Inr (True, if 300 \<le> digits_value s \<and> digits_value s \<le> 399 \<and> digits_value s \<noteq> 304
                      then h\<lparr>is_redirect := True\<rparr> else h)"
    unfolding check_http_redirect_def assms(3) first conj_assoc [symmetric] r1 r2
    by (simp add: r3)
  from err red show ?thesis by blast
qed

theorem http_status_flags_witness:
  "length ''404'' = 3 \<and> is_digit (CHR ''4'') \<and> is_digit (CHR ''0'')
   \<and> status (sample_hit 1 (PStr ''404'')) = PStr ''404''
   \<and> check_http_error (sample_hit 1 (PStr ''404''))
       = Inr (True, (sample_hit 1 (PStr ''404''))\<lparr>is_error := True\<rparr>)
   \<and> check_http_redirect (sample_hit 1 (PStr ''404'')) = Inr (True, sample_hit 1 (PStr ''404''))"
proof -
  have a: "length ''404'' = 3" by simp
  have b: "\<forall>c\<in>set ''404''. is_digit c" by (simp add: is_digit_def)
  have c: "status (sample_hit 1 (PStr ''404'')) = PStr ''404''" by (simp add: sample_hit_def)
  have v: "digits_value ''404'' = 404" by (simp add: digits_value_def digit_val_def)
  have d: "is_digit (CHR ''4'') \<and> is_digit (CHR ''0'')" by (simp add: is_digit_def)
  from http_status_flags [OF a b c] show ?thesis
    using a c d by (simp add: v)
qed

text \<open>
  The claim for every hit fails where the status is not a three-digit code: both
  methods read the first character only. The regex group \<^verbatim>\<open>(?P<status>\d+)\<close> admits the
  status 4000, which is outside [400, 599] and is marked as an error.
\<close>

theorem http_status_flags_counterexample:
  "check_http_error (sample_hit 1 (PStr ''4000''))
     = Inr (True, (sample_hit 1 (PStr ''4000''))\<lparr>is_error := True\<rparr>)
   \<and> int_of_string ''4000'' = Inr 4000
   \<and> \<not> (400 \<le> (4000 :: int) \<and> (4000 :: int) \<le> 599)"
  by (simp add: check_http_error_def first_item_def sample_hit_def int_of_string_def
      strip_chars_def whitespace_def split_sign_def digitpart_def is_digit_def
      digits_value_def digit_val_def)

text \<open>A format without a status field leaves \<^verbatim>\<open>hit.status = ""\<close> (lines 1232 to 1235), on
  which \<^verbatim>\<open>hit.status[0]\<close> raises.\<close>

lemma check_http_error_empty_status:
  "check_http_error (sample_hit 1 (PStr [])) = Inl IndexError"
  by (simp add: check_http_error_def first_item_def sample_hit_def)

subsection \<open>Float evaluation\<close>

lemmas round_head = round_ratio_def floor_log2_def bit_length.simps
lemmas round_tail = round_scaled_def pack_def round_div_def strip_twos.simps

lemma round_150: "round_ratio 150 1 = Fin 75 1"
proof -
  have "round_ratio 150 1 = round_scaled False 150 1 (- 45)"
    by (simp add: round_head)
  also have "\<dots> = Fin 75 1"
    by (simp add: round_tail)
  finally show ?thesis .
qed

lemma round_150000: "round_ratio 150000 1 = Fin 9375 4"
proof -
  have "round_ratio 150000 1 = round_scaled False 150000 1 (- 35)"
    by (simp add: round_head)
  also have "\<dots> = Fin 9375 4"
    by (simp add: round_tail)
  finally show ?thesis .
qed

lemma round_150000_1000: "round_ratio 150000 1000 = Fin 75 1"
proof -
  have "round_ratio 150000 1000 = round_scaled False 150000 1000 (- 45)"
    by (simp add: round_head)
  also have "\<dots> = Fin 75 1"
    by (simp add: round_tail)
  finally show ?thesis .
qed

lemma round_15_100: "round_ratio 15 100 = Fin 5404319552844595 (- 55)"
proof -
  have "round_ratio 15 100 = round_scaled False 15 100 (- 55)"
    by (simp add: round_head)
  also have "\<dots> = Fin 5404319552844595 (- 55)"
    by (simp add: round_tail)
  finally show ?thesis .
qed

lemma round_015_1000:
  "round_ratio 5404319552844595000 36028797018963968 = Fin 75 1"
proof -
  have "round_ratio 5404319552844595000 36028797018963968
          = round_scaled False 5404319552844595000 36028797018963968 (- 45)"
    by (simp add: round_head)
  also have "\<dots> = Fin 75 1"
    by (simp add: round_tail)
  finally show ?thesis .
qed

lemmas float_syntax_defs =
  float_of_string_def strip_chars_def whitespace_def split_sign_def lower_def lower_char_def
  upper_chars_def parse_number_def digitpart_def is_digit_def parse_exponent_def
  digits_value_def digit_val_def scale10_def

lemma float_150: "float_of_string ''150'' = Inr (Fin 75 1)"
  by (simp add: float_syntax_defs round_150)

lemma float_150000: "float_of_string ''150000'' = Inr (Fin 9375 4)"
  by (simp add: float_syntax_defs round_150000)

lemma float_015: "float_of_string ''0.15'' = Inr (Fin 5404319552844595 (- 55))"
  by (simp add: float_syntax_defs round_15_100)

lemma div_150000: "float_div (Fin 9375 4) 1000 = Fin 75 1"
  by (simp add: round_150000_1000)

lemma mul_015: "float_mul (Fin 5404319552844595 (- 55)) 1000 = Fin 75 1"
  by (simp add: round_015_1000)

lemma mul_150: "float_mul (Fin 75 1) 1000 = Fin 9375 4"
  by (simp add: round_150000)

lemma float_of_int_150: "float_of_int 150 = Fin 75 1"
  by (simp add: float_of_int_def round_150)

lemma float_of_int_150000: "float_of_int 150000 = Fin 9375 4"
  by (simp add: float_of_int_def round_150000)

subsection \<open>Generation time\<close>

lemma float_of_string_error: "float_of_string s = Inl e \<Longrightarrow> \<exists>t. e = ValueError t"
  by (auto simp add: float_of_string_def split: prod.splits if_splits option.splits)

lemma regex_get_float:
  assumes "\<forall>v\<in>snd ` set m. \<exists>t. v = PStr t"
    and "f = RegexFormat m \<or> f = ShoutcastFormat m \<or> f = AmazonCloudFrontFormat m"
    and "key = ''generation_time_milli'' \<or> key = ''generation_time_micro''
         \<or> key = ''generation_time_secs''"
  shows "get_float uq f key =
           (case numeric_field m key of
              Some x \<Rightarrow> (Inr x, f)
            | None \<Rightarrow> (fst (get_float uq f key), f))
         \<and> (numeric_field m key = None \<longrightarrow>
              (\<exists>e. fst (get_float uq f key) = Inl e \<and> recoverable e))"
proof (cases "map_of m key")
  case None
  then show ?thesis
    using assms(2,3)
    by (auto simp add: get_float_def regex_get_def numeric_field_def recoverable_def)
next
  case (Some v)
  then have "(key, v) \<in> set m" by (rule map_of_SomeD)
  then have "v \<in> snd ` set m" by force
  with assms(1) obtain t where v: "v = PStr t" by blast
  show ?thesis
    using assms(2,3) Some v float_of_string_error [of t]
    by (auto simp add: get_float_def regex_get_def numeric_field_def recoverable_def
        split: sum.splits)
qed

lemma regex_generation_time:
  assumes "\<forall>v\<in>snd ` set m. \<exists>t. v = PStr t"
    and "f = RegexFormat m \<or> f = ShoutcastFormat m \<or> f = AmazonCloudFrontFormat m"
  shows "generation_time uq f = (Inr (generation_time_spec m), f)"
proof -
  note g = regex_get_float [OF assms(1) assms(2), of _ uq]
  have g1: "get_float uq f ''generation_time_milli'' =
           (case numeric_field m ''generation_time_milli'' of
              Some x \<Rightarrow> (Inr x, f)
            | None \<Rightarrow> (fst (get_float uq f ''generation_time_milli''), f))
         \<and> (numeric_field m ''generation_time_milli'' = None \<longrightarrow>
              (\<exists>e. fst (get_float uq f ''generation_time_milli'') = Inl e \<and> recoverable e))"
    by (rule g) simp
  have g2: "get_float uq f ''generation_time_micro'' =
           (case numeric_field m ''generation_time_micro'' of
              Some x \<Rightarrow> (Inr x, f)
            | None \<Rightarrow> (fst (get_float uq f ''generation_time_micro''), f))
         \<and> (numeric_field m ''generation_time_micro'' = None \<longrightarrow>
              (\<exists>e. fst (get_float uq f ''generation_time_micro'') = Inl e \<and> recoverable e))"
    by (rule g) simp
  have g3: "get_float uq f ''generation_time_secs'' =
           (case numeric_field m ''generation_time_secs'' of
              Some x \<Rightarrow> (Inr x, f)
            | None \<Rightarrow> (fst (get_float uq f ''generation_time_secs''), f))
         \<and> (numeric_field m ''generation_time_secs'' = None \<longrightarrow>
              (\<exists>e. fst (get_float uq f ''generation_time_secs'') = Inl e \<and> recoverable e))"
    by (rule g) simp
  show ?thesis
  proof (cases "numeric_field m ''generation_time_milli''")
    case (Some x)
    with g1 show ?thesis
      by (simp add: generation_time_def generation_time_spec_def)
  next
    case n1: None
    with g1 obtain e1 where e1: "get_float uq f ''generation_time_milli'' = (Inl e1, f)"
      "recoverable e1"
      by (metis option.simps(4) prod.collapse fst_conv)
    show ?thesis
    proof (cases "numeric_field m ''generation_time_micro''")
      case (Some x)
      with g2 n1 e1 show ?thesis
        by (simp add: generation_time_def generation_time_spec_def)
    next
      case n2: None
      with g2 obtain e2 where e2: "get_float uq f ''generation_time_micro'' = (Inl e2, f)"
        "recoverable e2"
        by (metis option.simps(4) prod.collapse fst_conv)
      show ?thesis
      proof (cases "numeric_field m ''generation_time_secs''")
        case (Some x)
        with g3 n1 e1 n2 e2 show ?thesis
          by (simp add: generation_time_def generation_time_spec_def)
      next
        case n3: None
        with g3 obtain e3 where e3: "get_float uq f ''generation_time_secs'' = (Inl e3, f)"
          "recoverable e3"
          by (metis option.simps(4) prod.collapse fst_conv)
        with n1 e1 n2 e2 n3 show ?thesis
          by (simp add: generation_time_def generation_time_spec_def)
      qed
    qed
  qed
qed

lemma map_of_dict_set: "map_of (dict_set d k v) k = Some v"
  by (induction d) auto

lemma json_generation_time:
  assumes "map_of d ''generation_time_milli'' = Some v"
    and "py_float v = Inr x"
    and "float_mul x 1000 = Fin a b"
  shows "\<exists>k. int_of_float (Fin a b) = Inr k
           \<and> fst (generation_time uq (JsonFormat (PDict d)))
               = (case py_float (PInt k) of Inl err \<Rightarrow> Inl err | Inr y \<Rightarrow> Inr (PFloat y))"
proof -
  obtain k where k: "int_of_float (Fin a b) = Inr k"
    by simp
  have p: "json_patch (PDict d) ''generation_time_milli''
             = Inr (PDict (dict_set d ''generation_time_milli'' (PInt k)))"
    using assms k by (simp add: json_patch_def del: py_float.simps int_of_float.simps)
  have g: "get_float uq (JsonFormat (PDict d)) ''generation_time_milli''
             = (py_float (PInt k), JsonFormat (PDict (dict_set d ''generation_time_milli'' (PInt k))))"
    by (simp add: get_float_def p map_of_dict_set del: py_float.simps)
  have r: "py_float (PInt k) = Inl e \<Longrightarrow> \<not> recoverable e" for e
    by (auto simp add: recoverable_def split: pyfloat.splits)
  have "fst (generation_time uq (JsonFormat (PDict d)))
          = (case py_float (PInt k) of Inl err \<Rightarrow> Inl err | Inr y \<Rightarrow> Inr (PFloat y))"
  proof (cases "py_float (PInt k)")
    case (Inl e)
    with r [of e] show ?thesis
      by (simp add: generation_time_def g del: py_float.simps)
  next
    case (Inr y)
    then show ?thesis
      by (simp add: generation_time_def g del: py_float.simps)
  qed
  with k show ?thesis by blast
qed

lemma gt_examples:
  "generation_time uq (RegexFormat [(''generation_time_milli'', PStr ''150'')])
     = (Inr (PFloat (float_of_int 150)), RegexFormat [(''generation_time_milli'', PStr ''150'')])"
  "generation_time uq (RegexFormat [(''generation_time_micro'', PStr ''150000'')])
     = (Inr (PFloat (float_of_int 150)), RegexFormat [(''generation_time_micro'', PStr ''150000'')])"
  "generation_time uq (RegexFormat [(''generation_time_secs'', PStr ''0.15'')])
     = (Inr (PFloat (float_of_int 150)), RegexFormat [(''generation_time_secs'', PStr ''0.15'')])"
  "generation_time uq (RegexFormat []) = (Inr (PInt 0), RegexFormat [])"
  by (simp_all add: generation_time_def get_float_def regex_get_def recoverable_def
      float_150 float_150000 float_015 float_of_int_150 round_150000_1000 round_015_1000)

text \<open>
  C5, as amended. For a line matched by a regex-based format (every format of the
  catalog except \<^verbatim>\<open>nginx_json\<close>) whose groups all took part in the match, the generation
  time is the claimed one: the first of milliseconds, microseconds / 1000 and
  seconds * 1000 whose field is present and numeric, else 0; so 150 ms, 150000
  microseconds and 0.15 s all give 150, and no field gives 0. For an \<^verbatim>\<open>nginx_json\<close> line
  that has the key \<^verbatim>\<open>generation_time_milli\<close> with a value \<open>v\<close> that \<^verbatim>\<open>float()\<close> accepts and
  whose product \<^verbatim>\<open>float(v) * 1000\<close> is finite, \<^verbatim>\<open>JsonFormat.get\<close> first reads the value as
  seconds and replaces it by the whole milliseconds \<open>k\<close> = \<^verbatim>\<open>int(float(v) * 1000)\<close>, and the
  generation time is \<^verbatim>\<open>float(k)\<close>. The hit gets what the block computes from the format
  object of the line.
\<close>

theorem generation_time_order:
  "((\<forall>v\<in>snd ` set m. \<exists>t. v = PStr t) \<longrightarrow>
      (f = RegexFormat m \<or> f = ShoutcastFormat m \<or> f = AmazonCloudFrontFormat m) \<longrightarrow>
      generation_time uq f = (Inr (generation_time_spec m), f))
   \<and> fst (generation_time uq (RegexFormat [(''generation_time_milli'', PStr ''150'')]))
       = Inr (PFloat (float_of_int 150))
   \<and> fst (generation_time uq (RegexFormat [(''generation_time_micro'', PStr ''150000'')]))
       = Inr (PFloat (float_of_int 150))
   \<and> fst (generation_time uq (RegexFormat [(''generation_time_secs'', PStr ''0.15'')]))
       = Inr (PFloat (float_of_int 150))
   \<and> fst (generation_time uq (RegexFormat [])) = Inr (PInt 0)
   \<and> (map_of d ''generation_time_milli'' = Some v \<longrightarrow> py_float v = Inr x \<longrightarrow>
        float_mul x 1000 = Fin a b \<longrightarrow>
        (\<exists>k. int_of_float (Fin a b) = Inr k
           \<and> fst (generation_time uq (JsonFormat (PDict d)))
               = (case py_float (PInt k) of Inl err \<Rightarrow> Inl err | Inr y \<Rightarrow> Inr (PFloat y))))
   \<and> (make_hit env fname n g = (Inr h, g') \<longrightarrow>
        fst (generation_time (unquote env) g) = Inr (generation_time_milli h))"
  using regex_generation_time [of m f uq] json_generation_time [of d v x a b uq]
    make_hit_fields(4) [of env fname n g h g']
  by (simp add: gt_examples)

theorem generation_time_order_witness:
  "snd ` set [(''generation_time_secs'', PStr ''0.15'')] = {PStr ''0.15''}
   \<and> generation_time (unquote sample_env) (RegexFormat [(''generation_time_secs'', PStr ''0.15'')])
       = (Inr (PFloat (float_of_int 150)), RegexFormat [(''generation_time_secs'', PStr ''0.15'')])
   \<and> generation_time_spec [(''generation_time_secs'', PStr ''0.15'')] = PFloat (float_of_int 150)
   \<and> map_of [(''generation_time_milli'', PFloat (Fin 5404319552844595 (- 55)))]
        ''generation_time_milli'' = Some (PFloat (Fin 5404319552844595 (- 55)))
   \<and> float_mul (Fin 5404319552844595 (- 55)) 1000 = Fin 75 1
   \<and> int_of_float (Fin 75 1) = Inr 150
   \<and> fst (generation_time (unquote sample_env)
            (JsonFormat (PDict [(''generation_time_milli'', PFloat (Fin 5404319552844595 (- 55)))])))
       = Inr (PFloat (float_of_int 150))"
proof -
  let ?m = "[(''generation_time_secs'', PStr ''0.15'')]"
  let ?x = "Fin 5404319552844595 (- 55)"
  let ?d = "[(''generation_time_milli'', PFloat ?x)]"
  have strings: "\<forall>v\<in>snd ` set ?m. \<exists>t. v = PStr t"
    by simp
  have spec: "generation_time_spec ?m = PFloat (float_of_int 150)"
    by (simp add: generation_time_spec_def numeric_field_def float_015 round_015_1000
        float_of_int_150)
  have key: "map_of ?d ''generation_time_milli'' = Some (PFloat ?x)"
    by simp
  have conv: "py_float (PFloat ?x) = Inr ?x"
    by simp
  have ms: "float_mul ?x 1000 = Fin 75 1"
    by (simp add: round_015_1000)
  have whole: "int_of_float (Fin 75 1) = Inr 150"
    by simp
  have again: "py_float (PInt 150) = Inr (float_of_int 150)"
    by (simp add: float_of_int_150)
  note t = generation_time_order [of "?m" "RegexFormat ?m" "unquote sample_env" "?d"
      "PFloat ?x" "?x" 75 1]
  from t strings have a:
    "generation_time (unquote sample_env) (RegexFormat ?m)
       = (Inr (generation_time_spec ?m), RegexFormat ?m)"
    by blast
  from t key conv ms obtain k where k: "int_of_float (Fin 75 1) = Inr k"
    "fst (generation_time (unquote sample_env) (JsonFormat (PDict ?d)))
       = (case py_float (PInt k) of Inl err \<Rightarrow> Inl err | Inr y \<Rightarrow> Inr (PFloat y))"
    by blast
  from k(1) whole have "k = 150"
    by simp
  with k(2) again have b:
    "fst (generation_time (unquote sample_env) (JsonFormat (PDict ?d)))
       = Inr (PFloat (float_of_int 150))"
    by simp
  have vals: "snd ` set ?m = {PStr ''0.15''}"
    by simp
  from vals a spec key ms whole b show ?thesis
    by simp
qed

text \<open>
  The claim for every matched line fails on a line of the \<^verbatim>\<open>nginx_json\<close> format: its
  field \<^verbatim>\<open>generation_time_milli\<close> of 150 yields 150000.
\<close>

theorem generation_time_json_counterexample:
  "fst (generation_time (unquote sample_env)
          (JsonFormat (PDict [(''generation_time_milli'', PInt 150)])))
     = Inr (PFloat (float_of_int 150000))
   \<and> float_of_int 150000 \<noteq> float_of_int 150"
  by (simp add: generation_time_def get_float_def json_patch_def
      float_of_int_150 float_of_int_150000 round_150000)

text \<open>\<^verbatim>\<open>JsonFormat.get('generation_time_milli')\<close> indexes \<^verbatim>\<open>self.json\<close> before its \<^verbatim>\<open>try\<close>: on
  a line without the key the \<^verbatim>\<open>KeyError\<close> passes the handlers of lines 1293 to 1299.\<close>

lemma generation_time_json_missing:
  "fst (generation_time uq (JsonFormat (PDict [(''generation_time_micro'', PStr ''150000'')])))
     = Inl (KeyError ''generation_time_milli'')"
  by (simp add: generation_time_def get_float_def json_patch_def recoverable_def)

text \<open>The same line converts outside the \<^verbatim>\<open>try\<close> of the parser's reach for an
  \<^verbatim>\<open>OverflowError\<close>: a value whose product with 1000 is infinite makes \<^verbatim>\<open>int()\<close> raise it,
  and it passes the handlers as well.\<close>

lemma generation_time_json_overflow:
  "fst (generation_time uq (JsonFormat (PDict [(''generation_time_milli'', PStr ''inf'')])))
     = Inl OverflowError"
  by (simp add: generation_time_def get_float_def json_patch_def recoverable_def
      float_syntax_defs)

subsection \<open>Referrer and user agent\<close>

text \<open>
  C7, as amended. For the hit of every parsed line: a referrer or user agent that
  starts with a double quote loses its first and its last character, which strips one
  layer of quotes from a value enclosed in them; a referrer that is then \<^verbatim>\<open>-\<close> becomes the
  empty string, while a user agent \<^verbatim>\<open>-\<close> is kept; a missing referrer or user agent field
  gives the empty string.
\<close>

theorem referrer_user_agent_fields:
  assumes "make_hit env fname n f = (Inr h, f')"
  shows "(fst (get (unquote env) f ''referrer'') = Inr (PStr s) \<longrightarrow>
            referrer h =
              (if (if startswith s [CHR 0x22] then slice_1_m1 s else s) = ''-'' then []
               else if startswith s [CHR 0x22] then slice_1_m1 s else s))
       \<and> (fst (get (unquote env) f ''referrer'') = Inl BaseFormatException \<longrightarrow> referrer h = [])
       \<and> (fst (get (unquote env) f ''user_agent'') = Inr (PStr t) \<longrightarrow>
            user_agent h = (if startswith t [CHR 0x22] then slice_1_m1 t else t))
       \<and> (fst (get (unquote env) f ''user_agent'') = Inl BaseFormatException \<longrightarrow>
            user_agent h = [])
       \<and> startswith (CHR 0x22 # u @ [CHR 0x22]) [CHR 0x22]
       \<and> slice_1_m1 (CHR 0x22 # u @ [CHR 0x22]) = u"
proof -
  note r = make_hit_fields(1) [OF assms] and a = make_hit_fields(2) [OF assms]
  have r1: "referrer h =
              (if (if startswith s [CHR 0x22] then slice_1_m1 s else s) = ''-'' then []
               else if startswith s [CHR 0x22] then slice_1_m1 s else s)"
    if "fst (get (unquote env) f ''referrer'') = Inr (PStr s)"
    using r that
    by (auto simp add: referrer_field_def strip_quotes_def split: prod.splits if_splits)
  have r2: "referrer h = []"
    if "fst (get (unquote env) f ''referrer'') = Inl BaseFormatException"
    using r that
    by (auto simp add: referrer_field_def split: prod.splits)
  have a1: "user_agent h = (if startswith t [CHR 0x22] then slice_1_m1 t else t)"
    if "fst (get (unquote env) f ''user_agent'') = Inr (PStr t)"
    using a that
    by (auto simp add: user_agent_field_def strip_quotes_def split: prod.splits if_splits)
  have a2: "user_agent h = []"
    if "fst (get (unquote env) f ''user_agent'') = Inl BaseFormatException"
    using a that
    by (auto simp add: user_agent_field_def split: prod.splits)
  have q: "startswith (CHR 0x22 # u @ [CHR 0x22]) [CHR 0x22]
           \<and> slice_1_m1 (CHR 0x22 # u @ [CHR 0x22]) = u"
    by (simp add: startswith_def slice_1_m1_def)
  from r1 r2 a1 a2 q show ?thesis by blast
qed

theorem referrer_user_agent_fields_witness:
  "\<exists>h f'. make_hit sample_env ''access.log'' 0 (RegexFormat (sample_fields ''/x'')) = (Inr h, f')
     \<and> fst (get (unquote sample_env) (RegexFormat (sample_fields ''/x'')) ''referrer'')
         = Inr (PStr ''-'')
     \<and> referrer h = []
     \<and> fst (get (unquote sample_env) (RegexFormat (sample_fields ''/x'')) ''user_agent'')
         = Inr (PStr ''-'')
     \<and> user_agent h = ''-''"
proof -
  have "\<exists>h f'. make_hit sample_env ''access.log'' 0 (RegexFormat (sample_fields ''/x''))
                 = (Inr h, f')"
    by (simp add: normalizer_defs sample_env_def sample_fields_def)
  then obtain h f' where
    run: "make_hit sample_env ''access.log'' 0 (RegexFormat (sample_fields ''/x'')) = (Inr h, f')"
    by blast
  have g1: "fst (get (unquote sample_env) (RegexFormat (sample_fields ''/x'')) ''referrer'')
              = Inr (PStr ''-'')"
    by (simp add: regex_get_def sample_fields_def)
  have g2: "fst (get (unquote sample_env) (RegexFormat (sample_fields ''/x'')) ''user_agent'')
              = Inr (PStr ''-'')"
    by (simp add: regex_get_def sample_fields_def)
  from referrer_user_agent_fields [OF run, of "''-''" "''-''"] g1 g2
  have "referrer h = [] \<and> user_agent h = ''-''"
    by (simp add: startswith_def)
  with run g1 g2 show ?thesis by blast
qed

text \<open>
  The claim replaces the placeholder in both fields. Lines 1265 and 1266 do it for the
  referrer; the user agent block (lines 1268 to 1276) has no such step.
\<close>

theorem user_agent_placeholder_counterexample:
  "fst (user_agent_field (unquote sample_env) (RegexFormat [(''user_agent'', PStr ''-'')]))
     = Inr ''-''"
  by (simp add: user_agent_field_def regex_get_def strip_quotes_def startswith_def)

subsection \<open>Format detection\<close>












text \<open>A match without groups is never selected: \<^verbatim>\<open>format_groups\<close> starts at 0 and the
  comparison is strict.\<close>

lemma check_format_zero_groups:
  "check_format (sample_groups(''w3c_extended'' := Some 0, ''amazon_cloudfront'' := None,
      ''iis'' := None, ''shoutcast'' := None)) False = None"
  by (simp add: check_format_def FORMATS_def check_candidate_def sample_groups_def)

subsection \<open>Retries\<close>












lemma sample_requests:
  "hit_args_all (get_hit_args (sample_recorder_env f)) sample_batch
     = (Inr [1, 2, 3, 4, 5, 6, 7, 8, 9, 10], sample_batch)"
  by (simp add: sample_recorder_env_def sample_batch_def sample_hit_def)

text \<open>
  C2. The claim fails on the code. The first attempt to send the batch of lines 1 to 10
  is answered with an HTTP error whose body reports \<^verbatim>\<open>tracked: 4\<close>, the second succeeds.
  \<^verbatim>\<open>_record_hits\<close> passes \<^verbatim>\<open>expected_content=None\<close>, so \<^verbatim>\<open>_call_wrapper\<close> never calls the
  failure callback: the retry sends all ten requests again, the first four included.
\<close>

theorem bulk_retry_resends_tracked_requests:
  "record_hits (sample_recorder_env sample_flaky_func) (sample_recorder sample_batch)
     = (None,
        (sample_recorder sample_batch)
          \<lparr>hits := [],
           network := \<lparr>sent = [\<lparr>token = ''secret'', requests = [1, 2, 3, 4, 5, 6, 7, 8, 9, 10]\<rparr>,
                              \<lparr>token = ''secret'', requests = [1, 2, 3, 4, 5, 6, 7, 8, 9, 10]\<rparr>],
                      slept = [10]\<rparr>,
           lines_recorded := 10\<rparr>)"
proof -
  let ?data = "\<lparr>token = ''secret'', requests = [1, 2, 3, 4, 5, 6, 7, 8, 9, 10 :: int]\<rparr>"
  have call: "call_wrapper (Some sample_options) sample_flaky_func None
                (Some (on_tracking_failure sample_decode)) ?data \<lparr>sent = [], slept = []\<rparr>
              = (Inr ''{}'', ?data, \<lparr>sent = [?data, ?data], slept = [10]\<rparr>)"
    by (simp add: call_wrapper_def call_wrapper_loop.simps attempt_def sample_flaky_func_def
        caught_def retry_settings_def sample_options_def)
  have reply: "check_reply (PDict []) sample_batch = None"
    by (simp add: check_reply_def contains_def)
  have nonempty: "length sample_batch = 10"
    by (simp add: sample_batch_def)
  have env: "config (sample_recorder_env sample_flaky_func) = sample_options"
    "func (sample_recorder_env sample_flaky_func) = sample_flaky_func"
    "decode (sample_recorder_env sample_flaky_func) = sample_decode"
    by (simp_all add: sample_recorder_env_def)
  have tok: "token_auth sample_options = Some ''secret''"
    by (simp add: sample_options_def)
  have dec: "sample_decode ''{}'' = Some (PDict [])"
    by (simp add: sample_decode_def sample_error_body_def)
  show ?thesis
    using nonempty
    by (simp add: record_hits_def env tok dec sample_requests call reply sample_recorder_def)
qed

subsection \<open>The failure callback\<close>

text \<open>
  What the callback does when it is called: with a reply that reports \<open>k\<close> tracked
  requests it cuts the request list down to the requests from index \<open>k\<close> on, and a second
  call cuts the list the first one left. In the bulk path, where no response is
  expected, the wrapper never calls it and every attempt sends the data unchanged.
\<close>

lemma slice_from_count: "slice_from (PInt (int k)) xs = Inr (drop k xs)"
  by (simp add: slice_from_def slice_from_int_def)

lemma on_tracking_failure_truncates:
  assumes "dec r = Some resp" and "getitem resp ''tracked'' = Inr (PInt (int k))"
    and "getitem resp ''message'' = Inr m"
  shows "on_tracking_failure dec r data = (Inr (MsgValue m), data\<lparr>requests := drop k (requests data)\<rparr>)"
  using assms by (simp add: on_tracking_failure_def slice_from_count)

lemma on_tracking_failure_twice:
  assumes "dec r1 = Some resp1" and "getitem resp1 ''tracked'' = Inr (PInt (int k1))"
    and "getitem resp1 ''message'' = Inr m1"
    and "dec r2 = Some resp2" and "getitem resp2 ''tracked'' = Inr (PInt (int k2))"
    and "getitem resp2 ''message'' = Inr m2"
  shows "snd (on_tracking_failure dec r2 (snd (on_tracking_failure dec r1 data)))
           = data\<lparr>requests := drop (k1 + k2) (requests data)\<rparr>"
  using assms by (simp add: on_tracking_failure_truncates add.commute)

lemma attempt_without_expected:
  "attempt tr None cb k data = (case tr k data of Inl e \<Rightarrow> (Inl e, data) | Inr r \<Rightarrow> (Inr r, data))"
  by (simp add: attempt_def split: sum.splits)

lemma bulk_path_keeps_data:
  "call_wrapper_loop cfg tr None cb errors data net = (r, data', net') \<Longrightarrow>
   data' = data \<and> set (sent net') \<subseteq> set (sent net) \<union> {data}"
proof (induction cfg tr "None :: string option" cb errors data net arbitrary: r data' net'
    rule: call_wrapper_loop.induct)
  case (1 config func on_failure errors data net)
  show ?case
  proof (cases "func (length (sent net)) data")
    case (Inr response)
    with "1.prems" show ?thesis
      by (subst (asm) call_wrapper_loop.simps) (auto simp add: attempt_without_expected)
  next
    case (Inl e)
    show ?thesis
    proof (cases "caught e")
      case False
      with Inl "1.prems" show ?thesis
        by (subst (asm) call_wrapper_loop.simps) (auto simp add: attempt_without_expected)
    next
      case True
      show ?thesis
      proof (cases "retry_settings config")
        case (Inl ke)
        with \<open>func (length (sent net)) data = Inl e\<close> True "1.prems" show ?thesis
          by (subst (asm) call_wrapper_loop.simps) (auto simp add: attempt_without_expected)
      next
        case (Inr dm)
        obtain delay m where dm: "dm = (delay, m)" by (cases dm)
        show ?thesis
        proof (cases "int (Suc errors) < m \<and> \<not> delay < 0")
          case False
          with \<open>func (length (sent net)) data = Inl e\<close> True Inr dm "1.prems" show ?thesis
            by (subst (asm) call_wrapper_loop.simps)
              (auto simp add: attempt_without_expected split: if_splits)
        next
          case retry: True
          have att: "attempt func None on_failure (length (sent net)) data = (Inl e, data)"
            using \<open>func (length (sent net)) data = Inl e\<close> by (simp add: attempt_without_expected)
          have step: "call_wrapper_loop config func None on_failure (Suc errors) data
                   (net\<lparr>sent := sent net @ [data], slept := slept net @ [delay]\<rparr>) = (r, data', net')"
            using "1.prems" att True Inr dm retry
            by (subst (asm) call_wrapper_loop.simps) simp
          have "data' = data \<and> set (sent net')
                  \<subseteq> set (sent (net\<lparr>sent := sent net @ [data], slept := slept net @ [delay]\<rparr>))
                    \<union> {data}"
          proof (rule "1.hyps" [of "Inl e" data e dm delay m r data' net'])
            show "(Inl e, data) = attempt func None on_failure (length (sent net)) data"
              using att by simp
            show "Inl e = Inl e" ..
            show "\<not> \<not> caught e" using True by simp
            show "retry_settings config = Inr dm" by (rule Inr)
            show "(delay, m) = dm" using dm by simp
            show "int (Suc errors) < m" using retry by simp
            show "\<not> delay < 0" using retry by simp
            show "call_wrapper_loop config func None on_failure (Suc errors) data
                   (net\<lparr>sent := sent net @ [data], slept := slept net @ [delay]\<rparr>) = (r, data', net')"
              by (rule step)
          qed
          then show ?thesis by auto
        qed
      qed
    qed
  qed
qed

end
